theory Spec2Isabelle
  imports Main "HOL-Library.Word" "HOL-Library.Signed_Division"
begin

section \<open>The analog watch-face layer (src/pebble/src/modules/analog_layer.c)\<close>

text \<open>
  The module draws a 24-hour dial into a Pebble layer: three sky bands, 24 hour ticks and
  a sun whose angle encodes the local hour and minute. This theory embeds the module's
  functions and settles the claims made about them.
\<close>

subsection \<open>C integers\<close>

text \<open>
  The target is a 32-bit ARM: \<open>int8_t\<close>, \<open>int16_t\<close> and \<open>int32_t\<close> are two's-complement
  words, and C's \<open>int\<close> is 32 bits wide. Operands narrower than \<open>int\<close> are promoted to
  \<open>int\<close> before arithmetic (\<open>scast\<close>, sign extension); storing an \<open>int\<close> into a narrower
  variable or passing it as a narrower parameter keeps the low bits (\<open>scast\<close> again).
  \<open>+\<close>, \<open>-\<close> and \<open>*\<close> on words wrap around, which is what the target does where C
  leaves signed overflow undefined; the properties below are stated where nothing
  overflows, and their proofs show it. C's \<open>/\<close> and \<open>%\<close> truncate towards zero:
  \<open>sdiv\<close> and \<open>smod\<close> on the signed values. Every divisor in the module is a
  positive constant or \<open>TRIG_MAX_ANGLE\<close>.
\<close>

type_synonym int8_t = "8 word"
type_synonym int16_t = "16 word"
type_synonym int32_t = "32 word"
type_synonym c_int = "32 word"

definition c_div :: "c_int \<Rightarrow> c_int \<Rightarrow> c_int" where
  "c_div a b = word_of_int (sint a sdiv sint b)"

definition c_mod :: "c_int \<Rightarrow> c_int \<Rightarrow> c_int" where
  "c_mod a b = word_of_int (sint a smod sint b)"

subsection \<open>Types of the host SDK that the module uses\<close>

text \<open>
  \<open>pebble.h\<close> is not part of the sources. A \<open>GRect\<close> is an origin (\<open>x\<close>, \<open>y\<close>) and a size
  (\<open>w\<close>, \<open>h\<close>) of \<open>int16_t\<close>, as the designated initialiser of \<open>bsky_rect_trim\<close> shows;
  the record flattens \<open>.origin.x\<close> to \<open>origin_x\<close> and so on. A \<open>GPoint\<close> is an \<open>x\<close> and a
  \<open>y\<close>. Only the colours and the scale mode that the module names are listed.
\<close>

record GRect =
  origin_x :: int16_t
  origin_y :: int16_t
  size_w :: int16_t
  size_h :: int16_t

record GPoint =
  point_x :: int16_t
  point_y :: int16_t

datatype GColor =
    GColorClear | GColorYellow | GColorDarkCandyAppleRed
  | GColorCyan | GColorElectricBlue | GColorCeleste | GColorBlueMoon

datatype GOvalScaleMode = GOvalScaleModeFitCircle | GOvalScaleModeFillCircle

text \<open>\<open>struct tm\<close>: the calendar fields of the C library, each an \<open>int\<close>.\<close>

record tm =
  tm_sec :: c_int
  tm_min :: c_int
  tm_hour :: c_int
  tm_mday :: c_int
  tm_mon :: c_int
  tm_year :: c_int
  tm_wday :: c_int
  tm_yday :: c_int
  tm_isdst :: c_int

type_synonym time_t = "32 word"

subsection \<open>The module's state\<close>

text \<open>\<open>BSKY_AnalogData\<close> (lines 35 to 46): the custom state stored in the layer.\<close>

record BSKY_AnalogData =
  unix_time :: time_t
  wall_time :: tm
  sky_thickness :: int16_t

subsection \<open>bsky_rect_trim (lines 49 to 61)\<close>

text \<open>
  \<open>trim\<close> is an \<open>int8_t\<close>. Each field is computed in \<open>int\<close> from the promoted operands
  and stored into the \<open>int16_t\<close> field of the result.
\<close>

definition bsky_rect_trim :: "GRect \<Rightarrow> int8_t \<Rightarrow> GRect" where
  "bsky_rect_trim rect trim =
     \<lparr> origin_x = scast ((scast (origin_x rect) :: c_int) + scast trim),
       origin_y = scast ((scast (origin_y rect) :: c_int) + scast trim),
       size_w = scast ((scast (size_w rect) :: c_int) - scast trim * 2),
       size_h = scast ((scast (size_h rect) :: c_int) - scast trim * 2) \<rparr>"

subsection \<open>The host's drawing interface\<close>

text \<open>
  The redraw procedure acts only through calls of the host SDK on the graphics context.
  Its model returns the sequence of these calls, in order, each with the values of its
  arguments. Integer arguments are recorded as the \<open>int\<close> value of the argument
  expression at the call site, before any conversion to the parameter type of the
  host's prototype. \<open>gpoint_from_polar\<close> returns a value: the function is a parameter of
  the model (the host computes it), and each call of it is recorded as
  \<open>gpoint_from_polar_call\<close>.
\<close>

datatype gfx_call =
    graphics_context_set_fill_color GColor
  | graphics_fill_rect GRect c_int c_int
  | graphics_fill_radial GRect GOvalScaleMode c_int c_int c_int
  | graphics_context_set_stroke_color GColor
  | graphics_context_set_antialiased bool
  | graphics_context_set_stroke_width c_int
  | graphics_draw_line GPoint GPoint
  | graphics_fill_circle GPoint c_int
  | graphics_draw_circle GPoint c_int
  | gpoint_from_polar_call GRect GOvalScaleMode int32_t

type_synonym polar_fn = "GRect \<Rightarrow> GOvalScaleMode \<Rightarrow> int32_t \<Rightarrow> GPoint"

text \<open>
  Modelled from the spec: the host's layer is not in the sources. By the spec it is a
  "drawable region" supporting "creation with an attached opaque data block, attaching
  an update callback, marking dirty (request redraw), and destruction". The record holds
  what the module observes of a layer: its frame and bounds, the registered update
  procedure, the dirty flag, and the data block allocated with it; \<open>layer_get_data\<close>
  and \<open>layer_get_bounds\<close> read it. The only update procedure this module registers
  is \<open>bsky_analog_layer_update\<close>.
\<close>

datatype LayerUpdateProc = bsky_analog_layer_update_proc

record Layer =
  layer_frame :: GRect
  layer_bounds :: GRect
  layer_update_proc :: "LayerUpdateProc option"
  layer_dirty :: bool
  layer_data :: BSKY_AnalogData

definition layer_get_data :: "Layer \<Rightarrow> BSKY_AnalogData" where
  "layer_get_data l = layer_data l"

definition layer_get_bounds :: "Layer \<Rightarrow> GRect" where
  "layer_get_bounds l = layer_bounds l"

subsection \<open>bsky_analog_layer_update (lines 63 to 139)\<close>

text \<open>
  \<open>TRIG_MAX_ANGLE\<close>, the host's fixed-point value of a full turn, is a macro of
  \<open>pebble.h\<close>; the functions below take it as their first parameter. The Pebble SDK
  defines it as \<open>0x10000\<close>.
\<close>

definition pebble_TRIG_MAX_ANGLE :: int32_t where
  "pebble_TRIG_MAX_ANGLE = 0x10000"

definition color_sky_fill :: "GColor list" where
  "color_sky_fill = [GColorCyan, GColorElectricBlue, GColorCeleste]"

definition color_sky_fill_len :: int8_t where
  "color_sky_fill_len = of_nat (length color_sky_fill)"

text \<open>
  Lines 86 to 89, the local constant \<open>sky_thickness\<close> of the redraw procedure (the
  name itself belongs to the field of \<open>BSKY_AnalogData\<close>): a sixth of the shorter side,
  stored as \<open>int16_t\<close>.
\<close>

definition sky_thickness_of :: "GRect \<Rightarrow> int16_t" where
  "sky_thickness_of sky_bounds =
     scast (if size_h sky_bounds <s size_w sky_bounds
            then c_div (scast (size_h sky_bounds)) 6
            else c_div (scast (size_w sky_bounds)) 6)"

text \<open>
  Line 96, the argument \<open>sky_thickness * sky_fill / color_sky_fill_len\<close>, computed in
  \<open>int\<close> and passed as the \<open>int8_t\<close> parameter \<open>trim\<close>.
\<close>

definition sky_fill_trim :: "int16_t \<Rightarrow> int8_t \<Rightarrow> int8_t" where
  "sky_fill_trim thickness sky_fill =
     scast (c_div (scast thickness * scast sky_fill) (scast color_sky_fill_len))"

text \<open>
  Lines 90 to 101, the loop over the sky colours, from the value of \<open>sky_fill\<close> on.
  The loop condition bounds the index, so \<open>color_sky_fill ! _\<close> is read in range when
  the loop starts at 0.
\<close>

function sky_fill_loop :: "int32_t \<Rightarrow> GRect \<Rightarrow> int16_t \<Rightarrow> int8_t \<Rightarrow> gfx_call list" where
  "sky_fill_loop TRIG_MAX_ANGLE sky_bounds thickness sky_fill =
     (if sky_fill <s color_sky_fill_len
      then [graphics_context_set_fill_color (color_sky_fill ! nat (sint sky_fill)),
            graphics_fill_radial
              (bsky_rect_trim sky_bounds (sky_fill_trim thickness sky_fill))
              GOvalScaleModeFitCircle
              (c_div (scast thickness) (scast color_sky_fill_len))
              0
              TRIG_MAX_ANGLE]
           @ sky_fill_loop TRIG_MAX_ANGLE sky_bounds thickness (sky_fill + 1)
      else [])"
  by pat_completeness auto

termination
proof (relation "measure (\<lambda>(T, b, t, i). nat (3 - sint i))")
  show "wf (measure (\<lambda>(T :: int32_t, b :: GRect, t :: int16_t, i :: int8_t). nat (3 - sint i)))"
    by simp
next
  fix T :: int32_t and b :: GRect and t :: int16_t and i :: int8_t
  assume "i <s color_sky_fill_len"
  then have lt: "sint i < 3"
    by (simp add: word_sless_alt color_sky_fill_len_def color_sky_fill_def)
  have "sint (i + 1) = sint i + 1"
    using lt sint_ge [of i]
    by (simp add: sint_word_ariths signed_take_bit_int_eq_self)
  with lt show "((T, b, t, i + 1), (T, b, t, i))
      \<in> measure (\<lambda>(T, b, t, i). nat (3 - sint i))"
    by simp
qed

text \<open>Line 104: \<open>midnight_angle = TRIG_MAX_ANGLE / 2\<close>.\<close>

definition midnight_angle :: "int32_t \<Rightarrow> int32_t" where
  "midnight_angle TRIG_MAX_ANGLE = c_div TRIG_MAX_ANGLE 2"

text \<open>Lines 109 to 111: the angle of the tick of \<open>hour\<close>.\<close>

definition hour_angle :: "int32_t \<Rightarrow> int32_t \<Rightarrow> int32_t" where
  "hour_angle TRIG_MAX_ANGLE hour =
     c_mod (midnight_angle TRIG_MAX_ANGLE + c_div (hour * TRIG_MAX_ANGLE) 24)
           TRIG_MAX_ANGLE"

text \<open>Line 120: the stroke width \<open>hour % 3 ? 1 : 3\<close>.\<close>

definition hour_stroke_width :: "int32_t \<Rightarrow> c_int" where
  "hour_stroke_width hour = (if c_mod hour 3 \<noteq> 0 then 1 else 3)"

text \<open>Lines 109 to 121: the body of the loop over the hours, for one \<open>hour\<close>.\<close>

definition hour_marker :: "int32_t \<Rightarrow> polar_fn \<Rightarrow> GRect \<Rightarrow> GRect \<Rightarrow> int32_t \<Rightarrow> gfx_call list" where
  "hour_marker TRIG_MAX_ANGLE gpoint_from_polar bounds sky_inset hour =
     (let p0 = gpoint_from_polar sky_inset GOvalScaleModeFitCircle
                 (hour_angle TRIG_MAX_ANGLE hour);
          p1 = gpoint_from_polar bounds GOvalScaleModeFitCircle
                 (hour_angle TRIG_MAX_ANGLE hour)
      in [gpoint_from_polar_call sky_inset GOvalScaleModeFitCircle
            (hour_angle TRIG_MAX_ANGLE hour),
          gpoint_from_polar_call bounds GOvalScaleModeFitCircle
            (hour_angle TRIG_MAX_ANGLE hour),
          graphics_context_set_stroke_width (hour_stroke_width hour),
          graphics_draw_line p0 p1])"

text \<open>Lines 108 to 122: the loop over the hours, from the value of \<open>hour\<close> on.\<close>

function hour_loop :: "int32_t \<Rightarrow> polar_fn \<Rightarrow> GRect \<Rightarrow> GRect \<Rightarrow> int32_t \<Rightarrow> gfx_call list" where
  "hour_loop TRIG_MAX_ANGLE gpoint_from_polar bounds sky_inset hour =
     (if hour <s 24
      then hour_marker TRIG_MAX_ANGLE gpoint_from_polar bounds sky_inset hour
           @ hour_loop TRIG_MAX_ANGLE gpoint_from_polar bounds sky_inset (hour + 1)
      else [])"
  by pat_completeness auto
termination
proof (relation "measure (\<lambda>(T, g, b, r, i). nat (24 - sint i))")
  show "wf (measure (\<lambda>(T :: int32_t, g :: polar_fn, b :: GRect, r :: GRect, i :: int32_t).
      nat (24 - sint i)))"
    by simp
next
  fix T :: int32_t and g :: polar_fn and b :: GRect and r :: GRect and i :: int32_t
  assume "i <s 24"
  then have lt: "sint i < 24"
    by (simp add: word_sless_alt)
  have "sint (i + 1) = sint i + 1"
    using lt sint_ge [of i]
    by (simp add: sint_word_ariths signed_take_bit_int_eq_self)
  with lt show "((T, g, b, r, i + 1), (T, g, b, r, i))
      \<in> measure (\<lambda>(T, g, b, r, i). nat (24 - sint i))"
    by simp
qed

text \<open>Lines 125 to 127: the angle of the sun, from the hour and minute of the wall time.\<close>

definition sun_angle :: "int32_t \<Rightarrow> BSKY_AnalogData \<Rightarrow> int32_t" where
  "sun_angle TRIG_MAX_ANGLE d =
     midnight_angle TRIG_MAX_ANGLE
     + c_div (TRIG_MAX_ANGLE * tm_hour (wall_time d)) 24
     + c_div (TRIG_MAX_ANGLE * tm_min (wall_time d)) (24 * 60)"

text \<open>Line 128: \<open>sun_diameter = sky_thickness*3/4\<close>.\<close>

definition sun_diameter :: "int16_t \<Rightarrow> int32_t" where
  "sun_diameter thickness = c_div (scast thickness * 3) 4"

text \<open>Line 129: \<open>sun_orbit = bsky_rect_trim(sky_bounds, sky_thickness/2)\<close>.\<close>

definition sun_orbit :: "GRect \<Rightarrow> int16_t \<Rightarrow> GRect" where
  "sun_orbit sky_bounds thickness =
     bsky_rect_trim sky_bounds (scast (c_div (scast thickness) 2))"

text \<open>Line 105: \<open>sky_inset = bsky_rect_trim(sky_bounds, sky_thickness)\<close>.\<close>

definition sky_inset_of :: "GRect \<Rightarrow> int16_t \<Rightarrow> GRect" where
  "sky_inset_of sky_bounds thickness = bsky_rect_trim sky_bounds (scast thickness)"

text \<open>
  The redraw procedure. The graphics context is the list of calls it returns; the layer
  is read through \<open>layer_get_data\<close> and \<open>layer_get_bounds\<close> and is not written.
\<close>

definition bsky_analog_layer_update :: "int32_t \<Rightarrow> polar_fn \<Rightarrow> Layer \<Rightarrow> gfx_call list" where
  "bsky_analog_layer_update TRIG_MAX_ANGLE gpoint_from_polar layer =
     (let color_sun_fill = GColorYellow;
          color_sun_stroke = GColorDarkCandyAppleRed;
          color_sky_stroke = GColorBlueMoon;
          d = layer_get_data layer;
          bounds = layer_get_bounds layer;
          sky_bounds = bounds;
          thickness = sky_thickness_of sky_bounds;
          sky_inset = sky_inset_of sky_bounds thickness;
          sun_center = gpoint_from_polar (sun_orbit sky_bounds thickness)
                         GOvalScaleModeFitCircle (sun_angle TRIG_MAX_ANGLE d)
      in [graphics_context_set_fill_color GColorClear,
          graphics_fill_rect bounds 0 0]
         @ sky_fill_loop TRIG_MAX_ANGLE sky_bounds thickness 0
         @ [graphics_context_set_stroke_color color_sky_stroke,
            graphics_context_set_antialiased True]
         @ hour_loop TRIG_MAX_ANGLE gpoint_from_polar bounds sky_inset 0
         @ [gpoint_from_polar_call (sun_orbit sky_bounds thickness)
              GOvalScaleModeFitCircle (sun_angle TRIG_MAX_ANGLE d),
            graphics_context_set_fill_color color_sun_fill,
            graphics_fill_circle sun_center (c_div (sun_diameter thickness) 2),
            graphics_context_set_stroke_color color_sun_stroke,
            graphics_context_set_stroke_width 2,
            graphics_draw_circle sun_center (c_div (sun_diameter thickness) 2)])"

subsection \<open>Handles, layers and the heap\<close>

text \<open>
  \<open>struct BSKY_AnalogLayer\<close> (lines 141 to 149): a pointer to the host's layer and a
  pointer to the custom state stored in that layer. A pointer is an address or \<open>NULL\<close>
  (\<open>None\<close>); the data block of a layer is addressed by the address of its layer.
\<close>

type_synonym addr = nat

record BSKY_AnalogLayer =
  layer :: "addr option"
  data :: "addr option"

text \<open>
  The memory the module works on: the blocks obtained from \<open>malloc\<close> that hold a
  \<open>BSKY_AnalogLayer\<close>, and the layers obtained from the host.
\<close>

record world =
  analog_layers :: "addr \<rightharpoonup> BSKY_AnalogLayer"
  layers :: "addr \<rightharpoonup> Layer"

text \<open>
  Modelled from the spec: \<open>malloc\<close> and \<open>free\<close> of the C library and the allocator
  of the host's layers are not in the sources. By the spec creation "allocates an outer
  handle" and "a drawable region", either of which can fail "under allocation
  exhaustion". What the allocators answer to one call of \<open>bsky_analog_layer_create\<close>
  is a parameter: \<open>malloc\<close> returns \<open>NULL\<close> or the address of a block with
  indeterminate content, \<open>layer_create_with_data\<close> returns \<open>NULL\<close> or the address of
  a new layer. \<open>free\<close> releases a block.
\<close>

record host_alloc =
  malloc_result :: "addr option"
  malloc_content :: BSKY_AnalogLayer
  layer_result :: "addr option"

definition malloc :: "host_alloc \<Rightarrow> world \<Rightarrow> addr option \<times> world" where
  "malloc host s =
     (case malloc_result host of
        None \<Rightarrow> (None, s)
      | Some p \<Rightarrow> (Some p, s\<lparr>analog_layers := (analog_layers s)(p \<mapsto> malloc_content host)\<rparr>))"

definition free :: "addr \<Rightarrow> world \<Rightarrow> world" where
  "free p s = s\<lparr>analog_layers := (analog_layers s)(p := None)\<rparr>"

definition zero_tm :: tm where
  "zero_tm = \<lparr>tm_sec = 0, tm_min = 0, tm_hour = 0, tm_mday = 0, tm_mon = 0,
              tm_year = 0, tm_wday = 0, tm_yday = 0, tm_isdst = 0\<rparr>"

definition zero_data :: BSKY_AnalogData where
  "zero_data = \<lparr>unix_time = 0, wall_time = zero_tm, sky_thickness = 0\<rparr>"

text \<open>
  Modelled from the spec: \<open>layer_create_with_data\<close> is a function of the host SDK and
  is not in the sources. By the spec it "allocates a drawable region sized to \<open>frame\<close>
  with co-located state storage", can fail, and the "initial state fields are
  zero-valued (epoch time, zeroed calendar fields) until the first time-update call".
  The new layer has the frame it was given, bounds of the frame's size at the origin,
  no update procedure, and a zero-filled data block.
\<close>

definition layer_create_with_data :: "host_alloc \<Rightarrow> GRect \<Rightarrow> world \<Rightarrow> addr option \<times> world" where
  "layer_create_with_data host frame s =
     (case layer_result host of
        None \<Rightarrow> (None, s)
      | Some l \<Rightarrow>
          (Some l,
           s\<lparr>layers := (layers s)(l \<mapsto>
               \<lparr>layer_frame = frame,
                layer_bounds = \<lparr>origin_x = 0, origin_y = 0,
                                size_w = size_w frame, size_h = size_h frame\<rparr>,
                layer_update_proc = None,
                layer_dirty = False,
                layer_data = zero_data\<rparr>)\<rparr>))"

text \<open>
  Modelled from the spec: "attaching an update callback" and "marking dirty (request
  redraw)" of the host's drawable region. \<open>layer_set_update_proc\<close> is only called on
  the layer just created. \<open>layer_mark_dirty\<close> is given a pointer of the caller's handle;
  on a pointer that is not a live layer the behaviour is undefined (\<open>None\<close>).
\<close>

definition layer_set_update_proc :: "addr \<Rightarrow> LayerUpdateProc \<Rightarrow> world \<Rightarrow> world" where
  "layer_set_update_proc l f s =
     s\<lparr>layers := (layers s)(l := map_option (\<lambda>v. v\<lparr>layer_update_proc := Some f\<rparr>) (layers s l))\<rparr>"

definition layer_mark_dirty :: "addr option \<Rightarrow> world \<Rightarrow> world option" where
  "layer_mark_dirty lp s =
     (case lp of
        None \<Rightarrow> None
      | Some l \<Rightarrow>
          (case layers s l of
             None \<Rightarrow> None
           | Some v \<Rightarrow> Some (s\<lparr>layers := (layers s)(l \<mapsto> v\<lparr>layer_dirty := True\<rparr>)\<rparr>)))"

subsection \<open>bsky_analog_layer_create (lines 151 to 168)\<close>

text \<open>
  The result is the handle (\<open>None\<close> is \<open>NULL\<close>) and the memory afterwards. The two
  stores through \<open>analog_layer\<close> go to the block just obtained from \<open>malloc\<close>;
  \<open>layer_get_data\<close> of the new layer is the address of its data block.
\<close>

definition store_layer :: "addr \<Rightarrow> addr option \<Rightarrow> world \<Rightarrow> world" where
  "store_layer p v s =
     s\<lparr>analog_layers := (analog_layers s)(p := map_option (\<lambda>a. a\<lparr>layer := v\<rparr>) (analog_layers s p))\<rparr>"

definition store_data :: "addr \<Rightarrow> addr option \<Rightarrow> world \<Rightarrow> world" where
  "store_data p v s =
     s\<lparr>analog_layers := (analog_layers s)(p := map_option (\<lambda>a. a\<lparr>data := v\<rparr>) (analog_layers s p))\<rparr>"

definition bsky_analog_layer_create :: "host_alloc \<Rightarrow> GRect \<Rightarrow> world \<Rightarrow> addr option \<times> world" where
  "bsky_analog_layer_create host frame s =
     (case malloc host s of
        (None, s1) \<Rightarrow> (None, s1)
      | (Some analog_layer, s1) \<Rightarrow>
          (case layer_create_with_data host frame s1 of
             (None, s2) \<Rightarrow>
               (None, free analog_layer (store_layer analog_layer None s2))
           | (Some l, s2) \<Rightarrow>
               (Some analog_layer,
                layer_set_update_proc l bsky_analog_layer_update_proc
                  (store_data analog_layer (Some l)
                    (store_layer analog_layer (Some l) s2)))))"

subsection \<open>bsky_analog_layer_get_layer (lines 177 to 179)\<close>

definition bsky_analog_layer_get_layer :: "addr \<Rightarrow> world \<Rightarrow> addr option option" where
  "bsky_analog_layer_get_layer analog_layer s =
     (case analog_layers s analog_layer of
        None \<Rightarrow> None
      | Some a \<Rightarrow> Some (layer a))"

subsection \<open>bsky_analog_layer_set_time (lines 181 to 188)\<close>

text \<open>
  \<open>localtime\<close> is the host's decomposition of a timestamp into local calendar fields,
  a parameter of the model; the module copies the \<open>struct tm\<close> it points to without
  a check, and the host is taken to answer every timestamp. Dereferencing a pointer of
  the handle that is not live is undefined behaviour: the result is \<open>None\<close>.
\<close>

definition write_data :: "addr option \<Rightarrow> (BSKY_AnalogData \<Rightarrow> BSKY_AnalogData) \<Rightarrow> world \<Rightarrow> world option" where
  "write_data dp f s =
     (case dp of
        None \<Rightarrow> None
      | Some l \<Rightarrow>
          (case layers s l of
             None \<Rightarrow> None
           | Some v \<Rightarrow> Some (s\<lparr>layers := (layers s)(l \<mapsto> v\<lparr>layer_data := f (layer_data v)\<rparr>)\<rparr>)))"

definition bsky_analog_layer_set_time :: "(time_t \<Rightarrow> tm) \<Rightarrow> addr \<Rightarrow> time_t \<Rightarrow> world \<Rightarrow> world option" where
  "bsky_analog_layer_set_time localtime analog_layer time s =
     (case analog_layers s analog_layer of
        None \<Rightarrow> None
      | Some a \<Rightarrow>
          (case write_data (data a) (\<lambda>d. d\<lparr>unix_time := time\<rparr>) s of
             None \<Rightarrow> None
           | Some s1 \<Rightarrow>
               (let wall = localtime time
                in (case write_data (data a) (\<lambda>d. d\<lparr>wall_time := wall\<rparr>) s1 of
                      None \<Rightarrow> None
                    | Some s2 \<Rightarrow> layer_mark_dirty (layer a) s2))))"

text \<open>
  A live handle: a block that holds the address of a live layer in both of its fields,
  as \<open>bsky_analog_layer_create\<close> leaves it.
\<close>

definition live_handle :: "world \<Rightarrow> addr \<Rightarrow> addr \<Rightarrow> bool" where
  "live_handle s analog_layer l =
     (analog_layers s analog_layer = Some \<lparr>layer = Some l, data = Some l\<rparr>
      \<and> layers s l \<noteq> None)"

subsection \<open>Angles in degrees and concrete inputs for the statements\<close>

text \<open>
  The fixed-point value of an angle given in tenths of a degree, when a full turn is
  \<open>T\<close> units, rounded down to a whole unit: 180 degrees are \<open>angle_units T 1800\<close>.
\<close>

definition angle_units :: "int \<Rightarrow> int \<Rightarrow> int" where
  "angle_units T tenths = T * tenths div 3600"

text \<open>A state whose wall time is \<open>h\<close> hours and \<open>m\<close> minutes, all other fields zero.\<close>

definition data_at :: "int \<Rightarrow> int \<Rightarrow> BSKY_AnalogData" where
  "data_at h m =
     zero_data\<lparr>wall_time := zero_tm\<lparr>tm_hour := word_of_int h, tm_min := word_of_int m\<rparr>\<rparr>"

text \<open>
  Following the spec's words, "the region's shorter dimension" and a rectangle "shrunk
  by" \<open>n\<close> "from the region bounds" on each side: the origin moves in by \<open>n\<close>, the width
  and the height lose \<open>2 * n\<close>. The coordinates are \<open>int16_t\<close>, as in \<open>GRect\<close>.
\<close>

definition shorter_side :: "GRect \<Rightarrow> int" where
  "shorter_side r = min (sint (size_w r)) (sint (size_h r))"

definition rect_inset :: "GRect \<Rightarrow> int \<Rightarrow> GRect" where
  "rect_inset r n =
     \<lparr> origin_x = origin_x r + word_of_int n,
       origin_y = origin_y r + word_of_int n,
       size_w = size_w r - word_of_int (2 * n),
       size_h = size_h r - word_of_int (2 * n) \<rparr>"

text \<open>Concrete inputs: a square region at the origin, and a host that answers every
  \<open>gpoint_from_polar\<close> with the origin.\<close>

definition square_at_origin :: "int \<Rightarrow> GRect" where
  "square_at_origin n =
     \<lparr>origin_x = 0, origin_y = 0, size_w = word_of_int n, size_h = word_of_int n\<rparr>"

definition polar_origin :: polar_fn where
  "polar_origin r m a = \<lparr>point_x = 0, point_y = 0\<rparr>"

text \<open>A layer with the given bounds and state, as the redraw procedure reads it.\<close>

definition layer_at :: "GRect \<Rightarrow> BSKY_AnalogData \<Rightarrow> Layer" where
  "layer_at b d =
     \<lparr>layer_frame = b, layer_bounds = b,
      layer_update_proc = Some bsky_analog_layer_update_proc,
      layer_dirty = True, layer_data = d\<rparr>"

text \<open>
  The layer that \<open>bsky_analog_layer_create\<close> leaves behind for a frame: the layer of
  \<open>layer_create_with_data\<close> with the update procedure registered.
\<close>

definition new_layer :: "GRect \<Rightarrow> Layer" where
  "new_layer frame =
     \<lparr>layer_frame = frame,
      layer_bounds = \<lparr>origin_x = 0, origin_y = 0,
                      size_w = size_w frame, size_h = size_h frame\<rparr>,
      layer_update_proc = Some bsky_analog_layer_update_proc,
      layer_dirty = False,
      layer_data = zero_data\<rparr>"

text \<open>Concrete memories and allocator answers.\<close>

definition empty_world :: world where
  "empty_world = \<lparr>analog_layers = Map.empty, layers = Map.empty\<rparr>"

definition host_grants :: host_alloc where
  "host_grants =
     \<lparr>malloc_result = Some 1, malloc_content = \<lparr>layer = None, data = None\<rparr>,
      layer_result = Some 2\<rparr>"

definition host_refuses_layer :: host_alloc where
  "host_refuses_layer =
     \<lparr>malloc_result = Some 1, malloc_content = \<lparr>layer = None, data = None\<rparr>,
      layer_result = None\<rparr>"

text \<open>A host clock that reports 18:30 for every timestamp.\<close>

definition localtime_1830 :: "time_t \<Rightarrow> tm" where
  "localtime_1830 t = zero_tm\<lparr>tm_hour := 18, tm_min := 30\<rparr>"

subsection \<open>Reading the sequence of calls\<close>

text \<open>The angles passed to \<open>gpoint_from_polar\<close>, in the order of the calls.\<close>

fun polar_angle_of :: "gfx_call \<Rightarrow> int32_t list" where
  "polar_angle_of (gpoint_from_polar_call r m a) = [a]"
| "polar_angle_of _ = []"

definition gpoint_from_polar_angles :: "gfx_call list \<Rightarrow> int32_t list" where
  "gpoint_from_polar_angles calls = concat (map polar_angle_of calls)"

text \<open>
  The lines drawn by a sequence of calls, each with the stroke width in force when it is
  drawn; \<open>w\<close> is the stroke width of the context before the first call.
\<close>

fun drawn_lines :: "c_int \<Rightarrow> gfx_call list \<Rightarrow> (c_int \<times> GPoint \<times> GPoint) list" where
  "drawn_lines w [] = []"
| "drawn_lines w (graphics_context_set_stroke_width w' # cs) = drawn_lines w' cs"
| "drawn_lines w (graphics_draw_line p0 p1 # cs) = (w, p0, p1) # drawn_lines w cs"
| "drawn_lines w (c # cs) = drawn_lines w cs"

text \<open>
  The radial fills of a sequence of calls, each with the fill colour in force when it is
  drawn; \<open>c\<close> is the fill colour of the context before the first call.
\<close>

fun filled_radials ::
  "GColor \<Rightarrow> gfx_call list \<Rightarrow> (GColor \<times> GRect \<times> GOvalScaleMode \<times> c_int \<times> c_int \<times> c_int) list" where
  "filled_radials c [] = []"
| "filled_radials c (graphics_context_set_fill_color c' # cs) = filled_radials c' cs"
| "filled_radials c (graphics_fill_radial r m t a0 a1 # cs) =
     (c, r, m, t, a0, a1) # filled_radials c cs"
| "filled_radials c (x # cs) = filled_radials c cs"

fun is_circle :: "gfx_call \<Rightarrow> bool" where
  "is_circle (graphics_fill_circle p r) = True"
| "is_circle (graphics_draw_circle p r) = True"
| "is_circle _ = False"

section \<open>Properties\<close>

subsection \<open>C arithmetic on values that do not overflow\<close>

lemma sdiv_nonneg: "0 \<le> a \<Longrightarrow> 0 < b \<Longrightarrow> (a::int) sdiv b = a div b"
  by (simp add: signed_divide_int_def sgn_if)

lemma smod_nonneg: "0 \<le> a \<Longrightarrow> 0 < b \<Longrightarrow> (a::int) smod b = a mod b"
  by (simp add: signed_modulo_int_def sgn_if)

lemma sint_wi32:
  "- 2147483648 \<le> k \<Longrightarrow> k < 2147483648 \<Longrightarrow> sint (word_of_int k :: 32 word) = k"
  by (simp add: sint_sbintrunc' signed_take_bit_int_eq_self)

lemma sint_mult32:
  "- 2147483648 \<le> sint a * sint b \<Longrightarrow> sint a * sint b < 2147483648
   \<Longrightarrow> sint (a * b :: 32 word) = sint a * sint b"
  by (simp add: sint_word_ariths signed_take_bit_int_eq_self)

lemma sint_add32:
  "- 2147483648 \<le> sint a + sint b \<Longrightarrow> sint a + sint b < 2147483648
   \<Longrightarrow> sint (a + b :: 32 word) = sint a + sint b"
  by (simp add: sint_word_ariths signed_take_bit_int_eq_self)

lemma sint_c_div_nonneg:
  assumes "0 \<le> sint a" "0 < sint b"
  shows "sint (c_div a b) = sint a div sint b"
proof -
  have "sint a div sint b \<le> sint a div 1"
    using assms by (intro zdiv_mono2) simp_all
  then have "sint a div sint b \<le> sint a" by simp
  moreover have "0 \<le> sint a div sint b"
    using assms by (simp add: pos_imp_zdiv_nonneg_iff)
  moreover have "sint a < 2147483648"
    using sint_lt [of a] by simp
  ultimately have "sint (word_of_int (sint a div sint b) :: 32 word) = sint a div sint b"
    by (intro sint_wi32) simp_all
  then show ?thesis
    using assms by (simp add: c_div_def sdiv_nonneg)
qed

lemma sint_c_mod_nonneg:
  assumes "0 \<le> sint a" "0 < sint b"
  shows "sint (c_mod a b) = sint a mod sint b"
proof -
  have "sint a mod sint b < sint b" "0 \<le> sint a mod sint b"
    using assms by simp_all
  moreover have "sint b < 2147483648"
    using sint_lt [of b] by simp
  ultimately have "sint (word_of_int (sint a mod sint b) :: 32 word) = sint a mod sint b"
    by (intro sint_wi32) simp_all
  then show ?thesis
    using assms by (simp add: c_mod_def smod_nonneg)
qed

subsection \<open>Conversions between the integer types\<close>

lemma wi_sint: "word_of_int (sint x) = (x :: 'a::len word)"
proof -
  have "(scast x :: 'a word) = word_of_int (sint x)" by (rule scast_eq)
  then show ?thesis by simp
qed
lemma scast_32_16: "(scast (word_of_int k :: 32 word) :: 16 word) = word_of_int k"
  by (simp add: scast_eq sint_sbintrunc' word_of_int_eq_iff take_bit_signed_take_bit)
lemma promote16: "(scast (x :: 16 word) :: 32 word) = word_of_int (sint x)"
  by (rule scast_eq)
lemma promote8: "(scast (x :: 8 word) :: 32 word) = word_of_int (sint x)"
  by (rule scast_eq)
lemma trim_origin_field: "(scast ((scast (x :: 16 word) :: 32 word) + scast (t:: 8 word)) :: 16 word)
           = x + word_of_int (sint t)" 
  by (simp only: promote16 promote8 wi_hom_add scast_32_16)
     (simp only: wi_hom_add [symmetric] wi_sint)
lemma trim_size_field: "(scast ((scast (x :: 16 word) :: 32 word) - scast (t :: 8 word) * 2) :: 16 word)
           = x - word_of_int (2 * sint t)"
proof -
  have "(2 :: 32 word) = word_of_int 2" by simp
  then have "(scast ((scast x :: 32 word) - scast t * 2) :: 16 word)
        = word_of_int (sint x - sint t * 2)"
    by (simp only: promote16 promote8 wi_hom_mult wi_hom_sub scast_32_16)
  also have "\<dots> = x - word_of_int (2 * sint t)"
    by (simp only: wi_hom_sub [symmetric] wi_sint mult.commute)
  finally show ?thesis .
qed
lemma trim_as_inset: "bsky_rect_trim r t = rect_inset r (sint t)"
  by (simp only: bsky_rect_trim_def rect_inset_def trim_origin_field trim_size_field)

lemma scast_32_8: "(scast (word_of_int k :: 32 word) :: 8 word) = word_of_int k"
  by (simp add: scast_eq sint_sbintrunc' word_of_int_eq_iff take_bit_signed_take_bit)

lemma sint_wi16: "- 32768 \<le> k \<Longrightarrow> k < 32768 \<Longrightarrow> sint (word_of_int k :: 16 word) = k"
  by (simp add: sint_sbintrunc' signed_take_bit_int_eq_self)

lemma sint_wi8: "- 128 \<le> k \<Longrightarrow> k < 128 \<Longrightarrow> sint (word_of_int k :: 8 word) = k"
  by (simp add: sint_sbintrunc' signed_take_bit_int_eq_self)

lemma sint_promote16: "sint (scast (x :: 16 word) :: 32 word) = sint x"
  by (simp add: sint_up_scast is_up)

lemma sint_promote8: "sint (scast (x :: 8 word) :: 32 word) = sint x"
  by (simp add: sint_up_scast is_up)

lemma sint16_range: "- 32768 \<le> sint (x :: 16 word)" "sint (x :: 16 word) < 32768"
  using sint_ge [of x] sint_lt [of x] by simp_all

lemma c_div_wi:
  assumes "0 \<le> sint a" "0 < sint b"
  shows "c_div a b = word_of_int (sint a div sint b)"
  using assms by (simp add: c_div_def sdiv_nonneg)

lemma sixth_sint:
  fixes x :: "16 word"
  assumes "0 \<le> sint x"
  shows "sint (scast (c_div (scast x) 6) :: 16 word) = sint x div 6"
proof -
  have e: "c_div (scast x) 6 = word_of_int (sint x div 6)"
    using assms by (simp add: c_div_wi sint_promote16)
  have "sint x div 6 \<le> sint x" using assms by simp
  moreover have "0 \<le> sint x div 6" using assms by simp
  ultimately have "sint (word_of_int (sint x div 6) :: 16 word) = sint x div 6"
    using sint16_range [of x] by (intro sint_wi16) simp_all
  then show ?thesis
    by (simp only: e scast_32_16)
qed

lemma sky_thickness_sint:
  assumes "0 \<le> shorter_side b"
  shows "sint (sky_thickness_of b) = shorter_side b div 6"
proof -
  have w: "0 \<le> sint (size_w b)" and h: "0 \<le> sint (size_h b)"
    using assms by (simp_all add: shorter_side_def)
  show ?thesis
  proof (cases "size_h b <s size_w b")
    case True
    then have "shorter_side b = sint (size_h b)"
      by (simp add: shorter_side_def word_sless_alt)
    then show ?thesis
      using True h by (simp add: sky_thickness_of_def sixth_sint)
  next
    case False
    then have "shorter_side b = sint (size_w b)"
      by (simp add: shorter_side_def word_sless_alt)
    then show ?thesis
      using False w by (simp add: sky_thickness_of_def sixth_sint)
  qed
qed


lemma sint_narrow8:
  fixes x :: "16 word"
  shows "sint (scast x :: 8 word) = signed_take_bit 7 (sint x)"
proof -
  have e: "(scast x :: 8 word) = word_of_int (sint x)" by (rule scast_eq)
  show ?thesis unfolding e sint_sbintrunc' by simp
qed

lemma sint_narrow8_exact:
  fixes x :: "16 word"
  assumes "- 128 \<le> sint x" "sint x < 128"
  shows "sint (scast x :: 8 word) = sint x"
  using assms by (simp add: sint_narrow8 signed_take_bit_int_eq_self)

lemma sint_narrow8_truncated:
  fixes x :: "16 word"
  assumes "128 \<le> sint x"
  shows "sint (scast x :: 8 word) \<noteq> sint x"
  using assms sint_lt [of "scast x :: 8 word"] by simp

lemma sky_fill_trim_wi:
  assumes t: "0 \<le> sint th" and i: "i < 3"
  shows "sky_fill_trim th (of_nat i) = word_of_int (sint th * int i div 3)"
proof -
  have ii: "sint (of_nat i :: 8 word) = int i"
    using i sint_wi8 [of "int i"] by simp
  have b: "0 \<le> sint th * int i" "sint th * int i \<le> 32767 * 2"
    using t i sint16_range [of th] mult_mono [of "sint th" 32767 "int i" 2] by simp_all
  have p: "sint ((scast th :: 32 word) * scast (of_nat i :: 8 word)) = sint th * int i"
    using b by (simp add: sint_mult32 sint_promote16 sint_promote8 ii)
  have three: "sint (scast color_sky_fill_len :: 32 word) = 3"
    by (simp add: color_sky_fill_len_def color_sky_fill_def)
  have "c_div (scast th * scast (of_nat i :: 8 word)) (scast color_sky_fill_len)
        = word_of_int (sint th * int i div 3)"
    using b by (simp add: c_div_wi p three)
  then show ?thesis
    by (simp only: sky_fill_trim_def scast_32_8)
qed

lemma sky_fill_trim_sint:
  assumes t: "0 \<le> sint th" and i: "i < 3" and s: "sint th * int i div 3 < 128"
  shows "sint (sky_fill_trim th (of_nat i)) = sint th * int i div 3"
proof -
  have "0 \<le> sint th * int i" using t by simp
  then have "0 \<le> sint th * int i div 3" by (simp add: pos_imp_zdiv_nonneg_iff)
  then show ?thesis
    using s by (simp only: sky_fill_trim_wi [OF t i]) (intro sint_wi8, simp_all)
qed

lemma half_trim_sint:
  fixes th :: "16 word"
  assumes t: "0 \<le> sint th" and s: "sint th div 2 < 128"
  shows "sint (scast (c_div (scast th) 2) :: 8 word) = sint th div 2"
proof -
  have e: "c_div (scast th) 2 = word_of_int (sint th div 2)"
    using t by (simp add: c_div_wi sint_promote16)
  have "0 \<le> sint th div 2" using t by simp
  then show ?thesis
    using s by (simp only: e scast_32_8) (intro sint_wi8, simp_all)
qed

lemma sun_diameter_sint:
  assumes t: "0 \<le> sint th"
  shows "sint (sun_diameter th) = sint th * 3 div 4"
    and "sint (c_div (sun_diameter th) 2) = sint th * 3 div 4 div 2"
proof -
  have b: "0 \<le> sint th * 3" "sint th * 3 \<le> 32767 * 3"
    using t sint16_range [of th] by simp_all
  have p: "sint ((scast th :: 32 word) * 3) = sint th * 3"
    using b by (simp add: sint_mult32 sint_promote16)
  show d: "sint (sun_diameter th) = sint th * 3 div 4"
    using b by (simp add: sun_diameter_def sint_c_div_nonneg p)
  have "0 \<le> sint th * 3 div 4" using b by simp
  then show "sint (c_div (sun_diameter th) 2) = sint th * 3 div 4 div 2"
    by (simp add: sint_c_div_nonneg d)
qed

lemma radial_thickness_sint:
  fixes th :: "16 word"
  assumes t: "0 \<le> sint th"
  shows "sint (c_div (scast th) 3) = sint th div 3"
  using t by (simp add: sint_c_div_nonneg sint_promote16)

lemma rect_inset_differs:
  assumes "- 32768 \<le> n" "n < 32768" "- 32768 \<le> k" "k < 32768" "n \<noteq> k"
  shows "rect_inset r n \<noteq> rect_inset r k"
proof -
  have "sint (word_of_int n :: 16 word) \<noteq> sint (word_of_int k :: 16 word)"
    using assms by (simp add: sint_wi16)
  then have "(word_of_int n :: 16 word) \<noteq> word_of_int k" by auto
  then have "origin_x (rect_inset r n) \<noteq> origin_x (rect_inset r k)"
    by (simp add: rect_inset_def)
  then show ?thesis by auto
qed

subsection \<open>The angle of the sun\<close>

lemma sun_angle_sint:
  assumes T: "0 < sint T" "sint T \<le> 33554432"
      and h: "0 \<le> h" "h < 24" and m: "0 \<le> m" "m < 60"
      and d: "tm_hour (wall_time d) = word_of_int h" "tm_min (wall_time d) = word_of_int m"
  shows "sint (sun_angle T d) = sint T div 2 + sint T * h div 24 + sint T * m div 1440"
proof -
  let ?t = "sint T"
  have hh: "sint (word_of_int h :: 32 word) = h" using h by (simp add: sint_wi32)
  have mm: "sint (word_of_int m :: 32 word) = m" using m by (simp add: sint_wi32)
  have th: "0 \<le> ?t * h" "?t * h \<le> 33554432 * 23"
    using T h mult_mono [of ?t 33554432 h 23] by simp_all
  have tm: "0 \<le> ?t * m" "?t * m \<le> 33554432 * 59"
    using T m mult_mono [of ?t 33554432 m 59] by simp_all
  have p1: "sint (T * word_of_int h) = ?t * h"
    using th by (simp add: sint_mult32 hh)
  have p2: "sint (T * word_of_int m) = ?t * m"
    using tm by (simp add: sint_mult32 mm)
  have q0: "sint (c_div T 2) = ?t div 2"
    using T by (simp add: sint_c_div_nonneg)
  have q1: "sint (c_div (T * word_of_int h) 24) = ?t * h div 24"
    using th by (simp add: sint_c_div_nonneg p1)
  have q2: "sint (c_div (T * word_of_int m) 1440) = ?t * m div 1440"
    using tm by (simp add: sint_c_div_nonneg p2)
  have b0: "0 \<le> ?t div 2" "?t div 2 \<le> 33554432" using T by simp_all
  have b1: "0 \<le> ?t * h div 24" "?t * h div 24 \<le> 33554432" using th by simp_all
  have b2: "0 \<le> ?t * m div 1440" "?t * m div 1440 \<le> 33554432" using tm by simp_all
  have s1: "sint (c_div T 2 + c_div (T * word_of_int h) 24) = ?t div 2 + ?t * h div 24"
    using b0 b1 by (simp add: sint_add32 q0 q1)
  show ?thesis
    unfolding sun_angle_def midnight_angle_def d
    using b0 b1 b2 by (simp add: sint_add32 s1 q2)
qed

subsection \<open>The hour markers and the shape of the call sequence\<close>

lemma sint_of_nat32: "n < 2147483648 \<Longrightarrow> sint (of_nat n :: 32 word) = int n"
  using sint_wi32 [of "int n"] by simp

lemma hour_angle_sint:
  assumes T: "0 < sint T" "sint T \<le> 33554432" and h: "h < 24"
  shows "sint (hour_angle T (of_nat h))
         = (sint T div 2 + int h * sint T div 24) mod sint T"
proof -
  let ?t = "sint T"
  have hh: "sint (of_nat h :: 32 word) = int h" using h by (simp add: sint_of_nat32)
  have th: "0 \<le> int h * ?t" "int h * ?t \<le> 23 * 33554432"
    using T h mult_mono [of "int h" 23 ?t 33554432] by simp_all
  have p1: "sint (of_nat h * T) = int h * ?t"
    using th by (simp add: sint_mult32 hh)
  have q0: "sint (c_div T 2) = ?t div 2"
    using T by (simp add: sint_c_div_nonneg)
  have q1: "sint (c_div (of_nat h * T) 24) = int h * ?t div 24"
    using th by (simp add: sint_c_div_nonneg p1)
  have b0: "0 \<le> ?t div 2" "?t div 2 \<le> 33554432" using T by simp_all
  have b1: "0 \<le> int h * ?t div 24" "int h * ?t div 24 \<le> 33554432" using th by simp_all
  have s1: "sint (c_div T 2 + c_div (of_nat h * T) 24) = ?t div 2 + int h * ?t div 24"
    using b0 b1 by (simp add: sint_add32 q0 q1)
  show ?thesis
    unfolding hour_angle_def midnight_angle_def
    using b0 b1 T by (simp add: sint_c_mod_nonneg s1)
qed

lemma hour_angle_range:
  assumes T: "0 < sint T" "sint T \<le> 33554432" and h: "h < 24"
  shows "0 \<le> sint (hour_angle T (of_nat h)) \<and> sint (hour_angle T (of_nat h)) < sint T"
  using T by (simp add: hour_angle_sint [OF T h])

lemma hour_loop_unroll:
  "n \<le> 24 \<Longrightarrow>
   hour_loop T g b r (of_nat n) = concat (map (\<lambda>h. hour_marker T g b r (of_nat h)) [n..<24])"
proof (induction "24 - n" arbitrary: n)
  case 0
  then have "n = 24" by simp
  then show ?case
    by (simp add: hour_loop.simps [of T g b r 24] word_sless_alt)
next
  case (Suc k)
  then have n: "n < 24" by simp
  then have lt: "(of_nat n :: 32 word) <s 24"
    by (simp add: word_sless_alt sint_of_nat32)
  have step: "(of_nat n :: 32 word) + 1 = of_nat (Suc n)" by simp
  have ih: "hour_loop T g b r (of_nat (Suc n))
            = concat (map (\<lambda>h. hour_marker T g b r (of_nat h)) [Suc n..<24])"
    using Suc n by (intro Suc.hyps(1)) simp_all
  show ?case
    using n lt ih by (subst hour_loop.simps) (simp add: step upt_conv_Cons del: of_nat_Suc)
qed

lemma hour_stroke_width_of_nat:
  assumes "h < 24"
  shows "hour_stroke_width (of_nat h) = (if h mod 3 = 0 then 3 else 1)"
proof -
  have hh: "sint (of_nat h :: 32 word) = int h" using assms by (simp add: sint_of_nat32)
  have "sint (c_mod (of_nat h) 3) = int h mod 3"
    by (simp add: sint_c_mod_nonneg hh)
  moreover have "c_mod (of_nat h) 3 = 0 \<longleftrightarrow> sint (c_mod (of_nat h) 3) = 0"
    by (simp add: signed_eq_0_iff)
  moreover have "int h mod 3 = 0 \<longleftrightarrow> h mod 3 = 0"
    by presburger
  ultimately have "c_mod (of_nat h) 3 = 0 \<longleftrightarrow> h mod 3 = 0"
    by simp
  then show ?thesis by (simp add: hour_stroke_width_def)
qed


lemma color_sky_fill_len_3: "color_sky_fill_len = 3"
  by (simp add: color_sky_fill_len_def color_sky_fill_def)

lemma sky_fill_loop_0:
  "sky_fill_loop T b t 0 =
     [graphics_context_set_fill_color GColorCyan,
      graphics_fill_radial (bsky_rect_trim b (sky_fill_trim t 0))
        GOvalScaleModeFitCircle (c_div (scast t) 3) 0 T,
      graphics_context_set_fill_color GColorElectricBlue,
      graphics_fill_radial (bsky_rect_trim b (sky_fill_trim t 1))
        GOvalScaleModeFitCircle (c_div (scast t) 3) 0 T,
      graphics_context_set_fill_color GColorCeleste,
      graphics_fill_radial (bsky_rect_trim b (sky_fill_trim t 2))
        GOvalScaleModeFitCircle (c_div (scast t) 3) 0 T]"
  by (simp add: sky_fill_loop.simps [of T b t 0] sky_fill_loop.simps [of T b t 1]
                sky_fill_loop.simps [of T b t 2] sky_fill_loop.simps [of T b t 3]
                color_sky_fill_len_3 color_sky_fill_def word_sless_alt)

lemma hour_loop_0:
  "hour_loop T g b r 0 = concat (map (\<lambda>h. hour_marker T g b r (of_nat h)) [0..<24])"
  using hour_loop_unroll [of 0 T g b r] by simp

lemma polar_angles_append:
  "gpoint_from_polar_angles (xs @ ys) = gpoint_from_polar_angles xs @ gpoint_from_polar_angles ys"
  by (simp add: gpoint_from_polar_angles_def)

lemma polar_angles_markers:
  "gpoint_from_polar_angles (concat (map (\<lambda>h. hour_marker T g b r (f h)) hs))
   = concat (map (\<lambda>h. [hour_angle T (f h), hour_angle T (f h)]) hs)"
  by (induction hs) (simp_all add: gpoint_from_polar_angles_def hour_marker_def)

lemma update_polar_angles:
  "gpoint_from_polar_angles (bsky_analog_layer_update T g l)
   = concat (map (\<lambda>h. [hour_angle T (of_nat h), hour_angle T (of_nat h)]) [0..<24])
     @ [sun_angle T (layer_data l)]"
  unfolding bsky_analog_layer_update_def Let_def hour_loop_0 sky_fill_loop_0
            polar_angles_append polar_angles_markers layer_get_data_def
  by (simp add: gpoint_from_polar_angles_def)

lemma drawn_lines_markers:
  "drawn_lines w (concat (map (\<lambda>h. hour_marker T g b r (f h)) hs) @
       [gpoint_from_polar_call r' m a, graphics_context_set_fill_color c1,
        graphics_fill_circle p k, graphics_context_set_stroke_color c2,
        graphics_context_set_stroke_width w', graphics_draw_circle p k])
   = map (\<lambda>h. (hour_stroke_width (f h),
                 g r GOvalScaleModeFitCircle (hour_angle T (f h)),
                 g b GOvalScaleModeFitCircle (hour_angle T (f h)))) hs"
  by (induction hs arbitrary: w) (simp_all add: hour_marker_def)

lemma update_drawn_lines:
  "drawn_lines w (bsky_analog_layer_update T g l)
   = map (\<lambda>h. (if h mod 3 = 0 then 3 else 1,
         g (sky_inset_of (layer_bounds l) (sky_thickness_of (layer_bounds l)))
            GOvalScaleModeFitCircle (hour_angle T (of_nat h)),
         g (layer_bounds l) GOvalScaleModeFitCircle (hour_angle T (of_nat h)))) [0..<24]"
proof -
  have "drawn_lines w (bsky_analog_layer_update T g l)
   = map (\<lambda>h. (hour_stroke_width (of_nat h),
         g (sky_inset_of (layer_bounds l) (sky_thickness_of (layer_bounds l)))
            GOvalScaleModeFitCircle (hour_angle T (of_nat h)),
         g (layer_bounds l) GOvalScaleModeFitCircle (hour_angle T (of_nat h)))) [0..<24]"
    unfolding bsky_analog_layer_update_def Let_def hour_loop_0 sky_fill_loop_0
              layer_get_bounds_def
    by (simp add: drawn_lines_markers)
  also have "\<dots> = map (\<lambda>h. (if h mod 3 = 0 then 3 else 1,
         g (sky_inset_of (layer_bounds l) (sky_thickness_of (layer_bounds l)))
            GOvalScaleModeFitCircle (hour_angle T (of_nat h)),
         g (layer_bounds l) GOvalScaleModeFitCircle (hour_angle T (of_nat h)))) [0..<24]"
    by (rule map_cong) (simp_all add: hour_stroke_width_of_nat)
  finally show ?thesis .
qed

lemma pebble_sint: "sint pebble_TRIG_MAX_ANGLE = 65536"
  by (simp add: pebble_TRIG_MAX_ANGLE_def)

lemma hour_cases:
  assumes "h < (24::nat)"
  shows "h \<in> {0, 1, 2, 3, 4, 5, 6, 7, 8, 9, 10, 11, 12, 13, 14, 15, 16, 17, 18, 19, 20,
              21, 22, 23}"
  using assms by simp presburger

lemma pebble_hour_angle:
  assumes "h < 24"
  shows "sint (hour_angle pebble_TRIG_MAX_ANGLE (of_nat h))
         = (32768 + int h * 65536 div 24) mod 65536"
  using hour_angle_sint [of pebble_TRIG_MAX_ANGLE h] assms by (simp add: pebble_sint)

lemma pebble_hour_angle_degrees:
  assumes "h < 24"
  shows "(32768 + int h * 65536 div 24) mod 65536
         = angle_units 65536 ((1800 + 150 * int h) mod 3600)"
  using hour_cases [OF assms] by (auto simp: angle_units_def)

lemma pebble_hour_spacing:
  assumes "h < 24"
  shows "((32768 + int (Suc h mod 24) * 65536 div 24) mod 65536
          - (32768 + int h * 65536 div 24) mod 65536) mod 65536 \<in> {2730, 2731}"
  using hour_cases [OF assms] by auto

text \<open>
  Claim C2, as the code has it. For every layer the redraw procedure draws exactly 24
  lines, one per index \<open>h\<close> from 0 to 23 in this order: the line of \<open>h\<close> runs from the
  point that the host gives at the angle of \<open>h\<close> on the oval of the inset rectangle (the
  bounds trimmed by the sky thickness, passed through the \<open>int8_t\<close> parameter) to the
  point at the same angle on the oval of the bounds, with stroke width 3 when \<open>h mod 3 = 0\<close>
  and 1 otherwise. The angle of \<open>h\<close> is \<open>(T/2 + h*T/24) mod T\<close> with integer division, for
  a full turn \<open>T\<close> of at most \<open>2^25\<close> units; with the SDK's 65536 units it is
  \<open>(180 + 15 * h) mod 360\<close> degrees rounded down to a whole unit, and neighbouring
  ticks, the last and the first included, are 2730 or 2731 units apart.
\<close>

theorem hour_markers:
  assumes T: "0 < sint T" "sint T \<le> 33554432" and h: "h < 24"
  shows "drawn_lines w (bsky_analog_layer_update T g l)
         = map (\<lambda>h. (if h mod 3 = 0 then 3 else 1,
               g (sky_inset_of (layer_bounds l) (sky_thickness_of (layer_bounds l)))
                 GOvalScaleModeFitCircle (hour_angle T (of_nat h)),
               g (layer_bounds l) GOvalScaleModeFitCircle (hour_angle T (of_nat h))))
             [0..<24]
       \<and> sint (hour_angle T (of_nat h))
           = (sint T div 2 + int h * sint T div 24) mod sint T
       \<and> sint (hour_angle pebble_TRIG_MAX_ANGLE (of_nat h))
           = angle_units 65536 ((1800 + 150 * int h) mod 3600)
       \<and> (sint (hour_angle pebble_TRIG_MAX_ANGLE (of_nat (Suc h mod 24)))
            - sint (hour_angle pebble_TRIG_MAX_ANGLE (of_nat h))) mod 65536 \<in> {2730, 2731}"
proof -
  have h': "Suc h mod 24 < 24" by simp
  have "sint (hour_angle pebble_TRIG_MAX_ANGLE (of_nat h))
        = angle_units 65536 ((1800 + 150 * int h) mod 3600)"
    using h by (simp only: pebble_hour_angle pebble_hour_angle_degrees)
  moreover have "(sint (hour_angle pebble_TRIG_MAX_ANGLE (of_nat (Suc h mod 24)))
            - sint (hour_angle pebble_TRIG_MAX_ANGLE (of_nat h))) mod 65536 \<in> {2730, 2731}"
    using pebble_hour_spacing [OF h]
    by (simp only: pebble_hour_angle [OF h] pebble_hour_angle [OF h'])
  ultimately show ?thesis
    using update_drawn_lines [of w T g l] hour_angle_sint [OF T h] by simp
qed

theorem hour_markers_witness:
  "length (drawn_lines 1 (bsky_analog_layer_update pebble_TRIG_MAX_ANGLE polar_origin
             (layer_at (square_at_origin 180) (data_at 0 0)))) = 24
   \<and> sint (hour_angle pebble_TRIG_MAX_ANGLE 23) = 30037
   \<and> (sint (hour_angle pebble_TRIG_MAX_ANGLE 0)
        - sint (hour_angle pebble_TRIG_MAX_ANGLE 23)) mod 65536 = 2731"
  using hour_markers [of pebble_TRIG_MAX_ANGLE 23 1 polar_origin
                         "layer_at (square_at_origin 180) (data_at 0 0)"]
        hour_markers [of pebble_TRIG_MAX_ANGLE 0 1 polar_origin
                         "layer_at (square_at_origin 180) (data_at 0 0)"]
  by (simp add: pebble_sint angle_units_def)

text \<open>
  The ticks are not exactly evenly spaced: 65536 is not a multiple of 24, and the first
  two gaps are 2730 and 2731 units.
\<close>

theorem hour_spacing_counterexample:
  "sint (hour_angle pebble_TRIG_MAX_ANGLE 1) - sint (hour_angle pebble_TRIG_MAX_ANGLE 0)
   \<noteq> sint (hour_angle pebble_TRIG_MAX_ANGLE 2) - sint (hour_angle pebble_TRIG_MAX_ANGLE 1)"
  by (simp add: hour_angle_def midnight_angle_def pebble_TRIG_MAX_ANGLE_def c_div_def c_mod_def
                signed_divide_int_def signed_modulo_int_def)


text \<open>
  Claim C5 at a failing input. The angles of the ticks are reduced by
  \<open>% TRIG_MAX_ANGLE\<close> (\<open>hour_angle_range\<close>); the angle of the sun is not. At 12:00, on
  any bounds and for any host, the last angle passed to \<open>gpoint_from_polar\<close>, that of
  the sun, is the full turn itself, which is outside \<open>[0, TRIG_MAX_ANGLE)\<close>.
\<close>

theorem sun_angle_not_reduced_at_noon:
  "last (gpoint_from_polar_angles
           (bsky_analog_layer_update pebble_TRIG_MAX_ANGLE g (layer_at b (data_at 12 0))))
   = pebble_TRIG_MAX_ANGLE
   \<and> \<not> sint (last (gpoint_from_polar_angles
           (bsky_analog_layer_update pebble_TRIG_MAX_ANGLE g (layer_at b (data_at 12 0)))))
         < sint pebble_TRIG_MAX_ANGLE"
  unfolding update_polar_angles
  by (simp add: layer_at_def sun_angle_def midnight_angle_def pebble_TRIG_MAX_ANGLE_def
                data_at_def zero_data_def zero_tm_def c_div_def signed_divide_int_def)

subsection \<open>The sky bands\<close>

lemma filled_radials_markers:
  "filled_radials c (concat (map (\<lambda>h. hour_marker T g b r (f h)) hs) @ cs)
   = filled_radials c cs"
  by (induction hs) (simp_all add: hour_marker_def)

lemma update_filled_radials:
  "filled_radials c (bsky_analog_layer_update T g l)
   = [(GColorCyan,
       bsky_rect_trim (layer_bounds l) (sky_fill_trim (sky_thickness_of (layer_bounds l)) 0),
       GOvalScaleModeFitCircle, c_div (scast (sky_thickness_of (layer_bounds l))) 3, 0, T),
      (GColorElectricBlue,
       bsky_rect_trim (layer_bounds l) (sky_fill_trim (sky_thickness_of (layer_bounds l)) 1),
       GOvalScaleModeFitCircle, c_div (scast (sky_thickness_of (layer_bounds l))) 3, 0, T),
      (GColorCeleste,
       bsky_rect_trim (layer_bounds l) (sky_fill_trim (sky_thickness_of (layer_bounds l)) 2),
       GOvalScaleModeFitCircle, c_div (scast (sky_thickness_of (layer_bounds l))) 3, 0, T)]"
  unfolding bsky_analog_layer_update_def Let_def hour_loop_0 sky_fill_loop_0
            layer_get_bounds_def
  by (simp add: filled_radials_markers)

lemma rect_inset_size:
  assumes "- 32768 \<le> sint (size_w r) - 2 * n" "sint (size_w r) - 2 * n < 32768"
      and "- 32768 \<le> sint (size_h r) - 2 * n" "sint (size_h r) - 2 * n < 32768"
  shows "sint (size_w (rect_inset r n)) = sint (size_w r) - 2 * n"
    and "sint (size_h (rect_inset r n)) = sint (size_h r) - 2 * n"
proof -
  have e: "x - word_of_int (2 * n) = (word_of_int (sint x - 2 * n) :: 16 word)" for x
    by (simp only: wi_hom_sub [symmetric] wi_sint)
  have "size_w (rect_inset r n) = word_of_int (sint (size_w r) - 2 * n)"
    by (simp only: rect_inset_def GRect.select_convs e)
  then show "sint (size_w (rect_inset r n)) = sint (size_w r) - 2 * n"
    using assms(1,2) by (simp only: sint_wi16)
  have "size_h (rect_inset r n) = word_of_int (sint (size_h r) - 2 * n)"
    by (simp only: rect_inset_def GRect.select_convs e)
  then show "sint (size_h (rect_inset r n)) = sint (size_h r) - 2 * n"
    using assms(3,4) by (simp only: sint_wi16)
qed

lemma band_insets:
  assumes t: "0 \<le> sint th" and s: "sint th \<le> 191"
  shows "bsky_rect_trim b (sky_fill_trim th 0) = rect_inset b (sint th * 0 div 3)"
    and "bsky_rect_trim b (sky_fill_trim th 1) = rect_inset b (sint th * 1 div 3)"
    and "bsky_rect_trim b (sky_fill_trim th 2) = rect_inset b (sint th * 2 div 3)"
proof -
  have "sint (sky_fill_trim th (of_nat 0)) = sint th * int 0 div 3"
    using t s by (intro sky_fill_trim_sint) simp_all
  then show "bsky_rect_trim b (sky_fill_trim th 0) = rect_inset b (sint th * 0 div 3)"
    by (simp add: trim_as_inset)
  have "sint (sky_fill_trim th (of_nat 1)) = sint th * int 1 div 3"
    using t s by (intro sky_fill_trim_sint) simp_all
  then show "bsky_rect_trim b (sky_fill_trim th 1) = rect_inset b (sint th * 1 div 3)"
    by (simp add: trim_as_inset)
  have "sint (sky_fill_trim th (of_nat 2)) = sint th * int 2 div 3"
    using t s by (intro sky_fill_trim_sint) simp_all
  then show "bsky_rect_trim b (sky_fill_trim th 2) = rect_inset b (sint th * 2 div 3)"
    by (simp add: trim_as_inset)
qed

lemma radial_thickness_wi:
  fixes th :: "16 word"
  assumes "0 \<le> sint th"
  shows "c_div (scast th) 3 = word_of_int (sint th div 3)"
  using assms by (simp add: c_div_wi sint_promote16)

text \<open>
  Claim C3, as the code has it. For every layer whose bounds have a shorter side between
  18 and 1151 pixels, the sky thickness is a sixth of the shorter side, and the redraw
  procedure makes exactly three radial fills, in the colours cyan, electric blue and
  celeste in this order: band \<open>i\<close> is filled in the bounds shrunk by
  \<open>sky_thickness * i / 3\<close> on each side, with an inset thickness of \<open>sky_thickness / 3\<close>
  and a sweep from 0 to a full turn; the widths and the heights of the three rectangles
  decrease strictly.
\<close>

theorem sky_bands:
  assumes lo: "18 \<le> shorter_side (layer_bounds l)"
      and hi: "shorter_side (layer_bounds l) \<le> 1151"
  shows "(let b = layer_bounds l; t = shorter_side b div 6
          in sint (sky_thickness_of b) = t
           \<and> filled_radials c (bsky_analog_layer_update T g l)
             = [(GColorCyan, rect_inset b (t * 0 div 3),
                 GOvalScaleModeFitCircle, word_of_int (t div 3), 0, T),
                (GColorElectricBlue, rect_inset b (t * 1 div 3),
                 GOvalScaleModeFitCircle, word_of_int (t div 3), 0, T),
                (GColorCeleste, rect_inset b (t * 2 div 3),
                 GOvalScaleModeFitCircle, word_of_int (t div 3), 0, T)]
           \<and> sint (size_w (rect_inset b (t * 1 div 3))) < sint (size_w (rect_inset b (t * 0 div 3)))
           \<and> sint (size_w (rect_inset b (t * 2 div 3))) < sint (size_w (rect_inset b (t * 1 div 3)))
           \<and> sint (size_h (rect_inset b (t * 1 div 3))) < sint (size_h (rect_inset b (t * 0 div 3)))
           \<and> sint (size_h (rect_inset b (t * 2 div 3))) < sint (size_h (rect_inset b (t * 1 div 3))))"
proof -
  let ?b = "layer_bounds l"
  let ?t = "shorter_side ?b div 6"
  have nn: "0 \<le> shorter_side ?b" using lo by simp
  have th: "sint (sky_thickness_of ?b) = ?t"
    using nn by (rule sky_thickness_sint)
  have t: "3 \<le> ?t" "?t \<le> 191" using lo hi by simp_all
  have t0: "0 \<le> sint (sky_thickness_of ?b)" "sint (sky_thickness_of ?b) \<le> 191"
    using t th by simp_all
  have wh: "18 \<le> sint (size_w ?b)" "18 \<le> sint (size_h ?b)"
    using lo by (simp_all add: shorter_side_def)
  have i: "0 \<le> ?t * 0 div 3" "?t * 0 div 3 < ?t * 1 div 3" "?t * 1 div 3 < ?t * 2 div 3"
          "?t * 2 div 3 \<le> 127"
    using t by simp_all
  have sz: "sint (size_w (rect_inset ?b n)) = sint (size_w ?b) - 2 * n"
           "sint (size_h (rect_inset ?b n)) = sint (size_h ?b) - 2 * n"
    if "0 \<le> n" "n \<le> 127" for n
    using that wh sint16_range [of "size_w ?b"] sint16_range [of "size_h ?b"]
    by (simp_all add: rect_inset_size)
  have r: "filled_radials c (bsky_analog_layer_update T g l)
             = [(GColorCyan, rect_inset ?b (?t * 0 div 3),
                 GOvalScaleModeFitCircle, word_of_int (?t div 3), 0, T),
                (GColorElectricBlue, rect_inset ?b (?t * 1 div 3),
                 GOvalScaleModeFitCircle, word_of_int (?t div 3), 0, T),
                (GColorCeleste, rect_inset ?b (?t * 2 div 3),
                 GOvalScaleModeFitCircle, word_of_int (?t div 3), 0, T)]"
    unfolding update_filled_radials band_insets [OF t0] radial_thickness_wi [OF t0(1)] th ..
  have m: "sint (size_w (rect_inset ?b (?t * 1 div 3))) < sint (size_w (rect_inset ?b (?t * 0 div 3)))"
          "sint (size_w (rect_inset ?b (?t * 2 div 3))) < sint (size_w (rect_inset ?b (?t * 1 div 3)))"
          "sint (size_h (rect_inset ?b (?t * 1 div 3))) < sint (size_h (rect_inset ?b (?t * 0 div 3)))"
          "sint (size_h (rect_inset ?b (?t * 2 div 3))) < sint (size_h (rect_inset ?b (?t * 1 div 3)))"
    using i by (simp_all add: sz)
  show ?thesis
    unfolding Let_def using th r m by (intro conjI)
qed


theorem sky_bands_witness:
  "filled_radials GColorClear
     (bsky_analog_layer_update pebble_TRIG_MAX_ANGLE polar_origin
        (layer_at (square_at_origin 180) (data_at 0 0)))
   = [(GColorCyan, \<lparr>origin_x = 0, origin_y = 0, size_w = 180, size_h = 180\<rparr>,
       GOvalScaleModeFitCircle, 10, 0, pebble_TRIG_MAX_ANGLE),
      (GColorElectricBlue, \<lparr>origin_x = 10, origin_y = 10, size_w = 160, size_h = 160\<rparr>,
       GOvalScaleModeFitCircle, 10, 0, pebble_TRIG_MAX_ANGLE),
      (GColorCeleste, \<lparr>origin_x = 20, origin_y = 20, size_w = 140, size_h = 140\<rparr>,
       GOvalScaleModeFitCircle, 10, 0, pebble_TRIG_MAX_ANGLE)]"
  using sky_bands [of "layer_at (square_at_origin 180) (data_at 0 0)" GColorClear
                      pebble_TRIG_MAX_ANGLE polar_origin]
  by (simp add: layer_at_def square_at_origin_def shorter_side_def rect_inset_def Let_def)

text \<open>
  On a region of 6 by 6 pixels the sky thickness is 1, every inset and the inset
  thickness are 0, and the three bands are filled in the same rectangle: their radii do
  not decrease.
\<close>

theorem sky_bands_small_region_counterexample:
  "filled_radials GColorClear
     (bsky_analog_layer_update pebble_TRIG_MAX_ANGLE polar_origin
        (layer_at (square_at_origin 6) (data_at 0 0)))
   = [(GColorCyan, square_at_origin 6, GOvalScaleModeFitCircle, 0, 0, pebble_TRIG_MAX_ANGLE),
      (GColorElectricBlue, square_at_origin 6, GOvalScaleModeFitCircle, 0, 0,
       pebble_TRIG_MAX_ANGLE),
      (GColorCeleste, square_at_origin 6, GOvalScaleModeFitCircle, 0, 0,
       pebble_TRIG_MAX_ANGLE)]"
  unfolding update_filled_radials
  by (simp add: layer_at_def square_at_origin_def sky_thickness_of_def sky_fill_trim_def
                bsky_rect_trim_def color_sky_fill_len_3 c_div_def signed_divide_int_def
                word_sless_alt)

subsection \<open>The sun\<close>

lemma circles_markers:
  "filter is_circle (concat (map (\<lambda>h. hour_marker T g b r (f h)) hs)) = []"
  by (induction hs) (simp_all add: hour_marker_def)

lemma sun_orbit_inset:
  assumes "0 \<le> sint th" "sint th \<le> 255"
  shows "sun_orbit b th = rect_inset b (sint th div 2)"
proof -
  have "sint (scast (c_div (scast th) 2) :: 8 word) = sint th div 2"
    using assms by (intro half_trim_sint) simp_all
  then show ?thesis
    by (simp only: sun_orbit_def trim_as_inset)
qed

lemma sun_radius_wi:
  assumes "0 \<le> sint th"
  shows "c_div (sun_diameter th) 2 = word_of_int (sint th * 3 div 4 div 2)"
  using sun_diameter_sint(2) [OF assms] wi_sint [of "c_div (sun_diameter th) 2"]
  by simp

text \<open>
  Claim C4, as the code has it. For every layer whose bounds have a shorter side between 0
  and 1535 pixels, whatever the state: the sky thickness \<open>t\<close> is a sixth of the shorter
  side; the last calls of the redraw procedure, and its only circles, ask the host for
  the point at the angle of the sun on the oval of the bounds shrunk by \<open>t / 2\<close> on each
  side, fill a circle there in yellow, and outline it in dark candy apple red with
  stroke width 2; the radius passed for both is half of the sun's diameter \<open>t * 3 / 4\<close>,
  all divisions being integer divisions. For bounds of 180 by 180 at the origin the sky
  thickness is 30, the orbit is the rectangle (15, 15, 150, 150), and the diameter is 22.
\<close>

theorem sun_disc:
  assumes lo: "0 \<le> shorter_side (layer_bounds l)"
      and hi: "shorter_side (layer_bounds l) \<le> 1535"
  shows "(let b = layer_bounds l;
              t = shorter_side b div 6;
              orbit = rect_inset b (t div 2);
              a = sun_angle T (layer_data l);
              center = g orbit GOvalScaleModeFitCircle a;
              radius = word_of_int (t * 3 div 4 div 2)
          in sint (sky_thickness_of b) = t
           \<and> sint (sun_diameter (sky_thickness_of b)) = t * 3 div 4
           \<and> (\<exists>pre. filter is_circle pre = []
                \<and> bsky_analog_layer_update T g l
                    = pre @ [gpoint_from_polar_call orbit GOvalScaleModeFitCircle a,
                             graphics_context_set_fill_color GColorYellow,
                             graphics_fill_circle center radius,
                             graphics_context_set_stroke_color GColorDarkCandyAppleRed,
                             graphics_context_set_stroke_width 2,
                             graphics_draw_circle center radius]))
       \<and> sint (sky_thickness_of (square_at_origin 180)) = 30
       \<and> sun_orbit (square_at_origin 180) (sky_thickness_of (square_at_origin 180))
           = \<lparr>origin_x = 15, origin_y = 15, size_w = 150, size_h = 150\<rparr>
       \<and> sint (sun_diameter (sky_thickness_of (square_at_origin 180))) = 22"
proof -
  let ?b = "layer_bounds l"
  let ?t = "shorter_side ?b div 6"
  have th: "sint (sky_thickness_of ?b) = ?t"
    using lo by (rule sky_thickness_sint)
  have t0: "0 \<le> sint (sky_thickness_of ?b)" "sint (sky_thickness_of ?b) \<le> 255"
    using lo hi th by simp_all
  have d: "sint (sun_diameter (sky_thickness_of ?b)) = ?t * 3 div 4"
    using sun_diameter_sint(1) [OF t0(1)] th by simp
  have o: "sun_orbit ?b (sky_thickness_of ?b) = rect_inset ?b (?t div 2)"
    using sun_orbit_inset [OF t0] th by simp
  have r: "c_div (sun_diameter (sky_thickness_of ?b)) 2 = word_of_int (?t * 3 div 4 div 2)"
    using sun_radius_wi [OF t0(1)] th by simp
  let ?pre = "[graphics_context_set_fill_color GColorClear, graphics_fill_rect ?b 0 0]
         @ sky_fill_loop T ?b (sky_thickness_of ?b) 0
         @ [graphics_context_set_stroke_color GColorBlueMoon,
            graphics_context_set_antialiased True]
         @ hour_loop T g ?b (sky_inset_of ?b (sky_thickness_of ?b)) 0"
  have p: "filter is_circle ?pre = []"
    unfolding hour_loop_0 sky_fill_loop_0 filter_append circles_markers by simp
  have u: "bsky_analog_layer_update T g l
        = ?pre @ [gpoint_from_polar_call (rect_inset ?b (?t div 2)) GOvalScaleModeFitCircle
                    (sun_angle T (layer_data l)),
                  graphics_context_set_fill_color GColorYellow,
                  graphics_fill_circle
                    (g (rect_inset ?b (?t div 2)) GOvalScaleModeFitCircle
                       (sun_angle T (layer_data l)))
                    (word_of_int (?t * 3 div 4 div 2)),
                  graphics_context_set_stroke_color GColorDarkCandyAppleRed,
                  graphics_context_set_stroke_width 2,
                  graphics_draw_circle
                    (g (rect_inset ?b (?t div 2)) GOvalScaleModeFitCircle
                       (sun_angle T (layer_data l)))
                    (word_of_int (?t * 3 div 4 div 2))]"
    unfolding bsky_analog_layer_update_def Let_def layer_get_bounds_def layer_get_data_def o r
    by simp
  have s: "shorter_side (square_at_origin 180) = 180"
    by (simp add: shorter_side_def square_at_origin_def)
  have c1: "sint (sky_thickness_of (square_at_origin 180)) = 30"
    using sky_thickness_sint [of "square_at_origin 180"] s by simp
  have c2: "sun_orbit (square_at_origin 180) (sky_thickness_of (square_at_origin 180))
           = \<lparr>origin_x = 15, origin_y = 15, size_w = 150, size_h = 150\<rparr>"
    using sun_orbit_inset [of "sky_thickness_of (square_at_origin 180)" "square_at_origin 180"] c1
    by (simp add: rect_inset_def square_at_origin_def)
  have c3: "sint (sun_diameter (sky_thickness_of (square_at_origin 180))) = 22"
    using sun_diameter_sint(1) [of "sky_thickness_of (square_at_origin 180)"] c1 by simp
  have e: "\<exists>pre. filter is_circle pre = []
                \<and> bsky_analog_layer_update T g l
                    = pre @ [gpoint_from_polar_call (rect_inset ?b (?t div 2)) GOvalScaleModeFitCircle
                    (sun_angle T (layer_data l)),
                  graphics_context_set_fill_color GColorYellow,
                  graphics_fill_circle
                    (g (rect_inset ?b (?t div 2)) GOvalScaleModeFitCircle
                       (sun_angle T (layer_data l)))
                    (word_of_int (?t * 3 div 4 div 2)),
                  graphics_context_set_stroke_color GColorDarkCandyAppleRed,
                  graphics_context_set_stroke_width 2,
                  graphics_draw_circle
                    (g (rect_inset ?b (?t div 2)) GOvalScaleModeFitCircle
                       (sun_angle T (layer_data l)))
                    (word_of_int (?t * 3 div 4 div 2))]"
    using p u by blast
  show ?thesis
    unfolding Let_def using th d e c1 c2 c3 by (intro conjI)
qed

theorem sun_disc_witness:
  "sint (sky_thickness_of (square_at_origin 180)) = 30
   \<and> sint (sun_diameter (sky_thickness_of (square_at_origin 180))) = 22
   \<and> (\<exists>pre. filter is_circle pre = []
        \<and> bsky_analog_layer_update pebble_TRIG_MAX_ANGLE polar_origin
               (layer_at (square_at_origin 180) (data_at 12 0))
        = pre @ [gpoint_from_polar_call
                   \<lparr>origin_x = 15, origin_y = 15, size_w = 150, size_h = 150\<rparr>
                   GOvalScaleModeFitCircle 65536,
                 graphics_context_set_fill_color GColorYellow,
                 graphics_fill_circle \<lparr>point_x = 0, point_y = 0\<rparr> 11,
                 graphics_context_set_stroke_color GColorDarkCandyAppleRed,
                 graphics_context_set_stroke_width 2,
                 graphics_draw_circle \<lparr>point_x = 0, point_y = 0\<rparr> 11])"
  using sun_disc [of "layer_at (square_at_origin 180) (data_at 12 0)"
                     pebble_TRIG_MAX_ANGLE polar_origin]
  by (simp add: layer_at_def square_at_origin_def shorter_side_def rect_inset_def Let_def
                polar_origin_def sun_angle_def midnight_angle_def pebble_TRIG_MAX_ANGLE_def
                data_at_def zero_data_def zero_tm_def c_div_def signed_divide_int_def)

text \<open>
  On a region of 1536 by 1536 pixels the sky thickness is 256, and its half, 128, does
  not fit the \<open>int8_t\<close> parameter of \<open>bsky_rect_trim\<close>: the orbit is the bounds grown by
  128 pixels on each side, not shrunk.
\<close>

theorem sun_orbit_large_region_counterexample:
  "sint (sky_thickness_of (square_at_origin 1536)) = 256
   \<and> sun_orbit (square_at_origin 1536) (sky_thickness_of (square_at_origin 1536))
       = \<lparr>origin_x = - 128, origin_y = - 128, size_w = 1792, size_h = 1792\<rparr>
   \<and> sun_orbit (square_at_origin 1536) (sky_thickness_of (square_at_origin 1536))
       \<noteq> rect_inset (square_at_origin 1536) (256 div 2)"
  by (simp add: square_at_origin_def sky_thickness_of_def sun_orbit_def bsky_rect_trim_def
                rect_inset_def c_div_def signed_divide_int_def word_sless_alt)

subsection \<open>The width of the trim parameter\<close>

lemma sky_inset_as_inset:
  "sky_inset_of b th = rect_inset b (sint (scast th :: int8_t))"
  by (simp only: sky_inset_of_def trim_as_inset)

text \<open>
  Claim C10, as the code has it. \<open>bsky_rect_trim\<close> shrinks the rectangle by exactly the
  value of its \<open>int8_t\<close> parameter. For every region whose shorter side is between 0 and
  767 pixels, the sky thickness is at most 127 and every inset that the redraw procedure
  asks for (the sky thickness for the ticks, \<open>sky_thickness * i / 3\<close> for the bands,
  half the sky thickness for the orbit of the sun) is applied as it is. For every region
  whose shorter side is 768 pixels or more, the sky thickness does not survive the
  conversion to \<open>int8_t\<close>, and the inset rectangle of the ticks is not the bounds shrunk by
  the sky thickness.
\<close>

theorem trim_parameter_width:
  assumes nn: "0 \<le> shorter_side b"
  shows "bsky_rect_trim b tr = rect_inset b (sint tr)
       \<and> (shorter_side b \<le> 767 \<longrightarrow>
            (let th = sky_thickness_of b; t = shorter_side b div 6
             in sint th = t
              \<and> sky_inset_of b th = rect_inset b t
              \<and> bsky_rect_trim b (sky_fill_trim th 0) = rect_inset b (t * 0 div 3)
              \<and> bsky_rect_trim b (sky_fill_trim th 1) = rect_inset b (t * 1 div 3)
              \<and> bsky_rect_trim b (sky_fill_trim th 2) = rect_inset b (t * 2 div 3)
              \<and> sun_orbit b th = rect_inset b (t div 2)))
       \<and> (768 \<le> shorter_side b \<longrightarrow>
            sint (scast (sky_thickness_of b) :: int8_t) \<noteq> sint (sky_thickness_of b)
          \<and> sky_inset_of b (sky_thickness_of b) \<noteq> rect_inset b (shorter_side b div 6))"
proof -
  let ?th = "sky_thickness_of b"
  let ?t = "shorter_side b div 6"
  have th: "sint ?th = ?t"
    using nn by (rule sky_thickness_sint)
  have small: "sint ?th = ?t
              \<and> sky_inset_of b ?th = rect_inset b ?t
              \<and> bsky_rect_trim b (sky_fill_trim ?th 0) = rect_inset b (?t * 0 div 3)
              \<and> bsky_rect_trim b (sky_fill_trim ?th 1) = rect_inset b (?t * 1 div 3)
              \<and> bsky_rect_trim b (sky_fill_trim ?th 2) = rect_inset b (?t * 2 div 3)
              \<and> sun_orbit b ?th = rect_inset b (?t div 2)"
    if le: "shorter_side b \<le> 767"
  proof -
    have t0: "0 \<le> sint ?th" "sint ?th \<le> 127"
      using nn le th by simp_all
    have "sint (scast ?th :: int8_t) = sint ?th"
      using t0 by (intro sint_narrow8_exact) simp_all
    then have i: "sky_inset_of b ?th = rect_inset b ?t"
      by (simp only: sky_inset_as_inset th)
    have t1: "sint ?th \<le> 191" "sint ?th \<le> 255" using t0 by simp_all
    show ?thesis
      using th i band_insets [OF t0(1) t1(1), of b] sun_orbit_inset [OF t0(1) t1(2), of b]
      by (simp only: th)
  qed
  have large: "sint (scast ?th :: int8_t) \<noteq> sint ?th
             \<and> sky_inset_of b ?th \<noteq> rect_inset b ?t"
    if ge: "768 \<le> shorter_side b"
  proof -
    have t0: "128 \<le> sint ?th" using ge th by simp
    have n: "sint (scast ?th :: int8_t) \<noteq> sint ?th"
      using t0 by (rule sint_narrow8_truncated)
    have a: "- 128 \<le> sint (scast ?th :: int8_t)" "sint (scast ?th :: int8_t) < 128"
      using sint_ge [of "scast ?th :: int8_t"] sint_lt [of "scast ?th :: int8_t"] by simp_all
    have "rect_inset b (sint (scast ?th :: int8_t)) \<noteq> rect_inset b (sint ?th)"
      using a n sint16_range [of ?th] by (intro rect_inset_differs) simp_all
    then show ?thesis
      using n by (simp only: sky_inset_as_inset th) simp
  qed
  show ?thesis
    unfolding Let_def using small large trim_as_inset [of b tr] by blast
qed

theorem trim_parameter_width_witness:
  "sky_inset_of (square_at_origin 180) (sky_thickness_of (square_at_origin 180))
     = \<lparr>origin_x = 30, origin_y = 30, size_w = 120, size_h = 120\<rparr>
   \<and> sint (scast (sky_thickness_of (square_at_origin 768)) :: int8_t)
       \<noteq> sint (sky_thickness_of (square_at_origin 768))
   \<and> sky_inset_of (square_at_origin 768) (sky_thickness_of (square_at_origin 768))
       \<noteq> rect_inset (square_at_origin 768) 128"
  using trim_parameter_width [of "square_at_origin 180" 0]
        trim_parameter_width [of "square_at_origin 768" 0]
  by (simp add: square_at_origin_def shorter_side_def rect_inset_def Let_def)

text \<open>
  The threshold is not 762: on a region of 765 by 765 pixels the sky thickness is 127
  and the inset is applied exactly.
\<close>

theorem trim_threshold_counterexample:
  "762 < shorter_side (square_at_origin 765)
   \<and> sint (sky_thickness_of (square_at_origin 765)) = 127
   \<and> sint (scast (sky_thickness_of (square_at_origin 765)) :: int8_t)
       = sint (sky_thickness_of (square_at_origin 765))
   \<and> sky_inset_of (square_at_origin 765) (sky_thickness_of (square_at_origin 765))
       = rect_inset (square_at_origin 765) 127"
  by (simp add: square_at_origin_def shorter_side_def sky_thickness_of_def sky_inset_of_def
                bsky_rect_trim_def rect_inset_def c_div_def signed_divide_int_def
                word_sless_alt)

subsection \<open>Creation\<close>

lemma create_malloc_fails:
  "malloc_result host = None \<Longrightarrow> bsky_analog_layer_create host frame s = (None, s)"
  by (simp add: bsky_analog_layer_create_def malloc_def)

lemma world_restore:
  "analog_layers s p = None \<Longrightarrow>
   free p (store_layer p v (s\<lparr>analog_layers := (analog_layers s)(p \<mapsto> c)\<rparr>)) = s"
  by (simp add: free_def store_layer_def fun_upd_idem)

lemma create_layer_fails:
  assumes "malloc_result host = Some p" "layer_result host = None" "analog_layers s p = None"
  shows "bsky_analog_layer_create host frame s = (None, s)"
  using assms
  by (simp add: bsky_analog_layer_create_def malloc_def layer_create_with_data_def
                world_restore)

lemma create_succeeds:
  assumes "malloc_result host = Some p" "layer_result host = Some q"
  shows "bsky_analog_layer_create host frame s
         = (Some p,
            \<lparr>analog_layers = (analog_layers s)(p \<mapsto> \<lparr>layer = Some q, data = Some q\<rparr>),
             layers = (layers s)(q \<mapsto> new_layer frame)\<rparr>)"
  using assms
  by (cases "malloc_content host"; cases s)
     (simp add: bsky_analog_layer_create_def malloc_def layer_create_with_data_def
                store_layer_def store_data_def layer_set_update_proc_def new_layer_def)

lemma created_world:
  "bsky_analog_layer_create host_grants frame empty_world
   = (Some 1,
      \<lparr>analog_layers = [1 \<mapsto> \<lparr>layer = Some 2, data = Some 2\<rparr>],
       layers = [2 \<mapsto> new_layer frame]\<rparr>)"
  using create_succeeds [of host_grants 1 2 frame empty_world]
  by (simp add: host_grants_def empty_world_def)

text \<open>
  Claim C6. Let \<open>malloc\<close> answer with \<open>NULL\<close> or with a block that is not in use. Then
  \<open>bsky_analog_layer_create\<close> returns \<open>NULL\<close> exactly when one of the two allocations
  fails; when it returns \<open>NULL\<close> the memory is as it was before the call, with nothing
  left allocated; and when it returns a handle, the handle is live: both of its fields
  point to a live layer, and that layer has \<open>bsky_analog_layer_update\<close> registered as
  its update procedure.
\<close>

theorem create_outcomes:
  assumes fresh: "\<forall>p. malloc_result host = Some p \<longrightarrow> analog_layers s p = None"
  shows "(fst (bsky_analog_layer_create host frame s) = None
          \<longleftrightarrow> malloc_result host = None \<or> layer_result host = None)
       \<and> (fst (bsky_analog_layer_create host frame s) = None
          \<longrightarrow> snd (bsky_analog_layer_create host frame s) = s)
       \<and> (\<forall>p. fst (bsky_analog_layer_create host frame s) = Some p
          \<longrightarrow> (\<exists>q v. live_handle (snd (bsky_analog_layer_create host frame s)) p q
                    \<and> layers (snd (bsky_analog_layer_create host frame s)) q = Some v
                    \<and> layer_update_proc v = Some bsky_analog_layer_update_proc))"
proof (cases "malloc_result host")
  case None
  then show ?thesis by (simp add: create_malloc_fails)
next
  case (Some p)
  note m = this
  show ?thesis
  proof (cases "layer_result host")
    case None
    then show ?thesis
      using m fresh by (simp add: create_layer_fails)
  next
    case (Some q)
    then show ?thesis
      using m by (simp add: create_succeeds live_handle_def new_layer_def)
  qed
qed

theorem create_outcomes_witness:
  "fst (bsky_analog_layer_create host_refuses_layer (square_at_origin 180) empty_world) = None
   \<and> snd (bsky_analog_layer_create host_refuses_layer (square_at_origin 180) empty_world)
       = empty_world
   \<and> fst (bsky_analog_layer_create host_grants (square_at_origin 180) empty_world) = Some 1
   \<and> (\<exists>q v. live_handle
                (snd (bsky_analog_layer_create host_grants (square_at_origin 180) empty_world))
                1 q
            \<and> layers (snd (bsky_analog_layer_create host_grants (square_at_origin 180)
                   empty_world)) q = Some v
            \<and> layer_update_proc v = Some bsky_analog_layer_update_proc)"
proof -
  have g: "fst (bsky_analog_layer_create host_grants (square_at_origin 180) empty_world)
           = Some 1"
    by (simp add: bsky_analog_layer_create_def malloc_def layer_create_with_data_def
                  host_grants_def)
  show ?thesis
    using create_outcomes [of host_refuses_layer empty_world "square_at_origin 180"]
          create_outcomes [of host_grants empty_world "square_at_origin 180"] g
    by (simp add: host_refuses_layer_def host_grants_def empty_world_def)
qed

text \<open>
  Claim C8. Right after a successful \<open>bsky_analog_layer_create\<close>, the state stored in the
  new layer is zero in every field: the timestamp, each calendar field of the wall time,
  and the sky thickness. \<open>bsky_analog_layer_create\<close> itself writes no field of the
  state; the zeroes are those of \<open>layer_create_with_data\<close>.
\<close>

theorem create_initial_state:
  assumes "bsky_analog_layer_create host frame s = (Some p, s')"
  shows "\<exists>q v. live_handle s' p q \<and> layers s' q = Some v
             \<and> layer_get_data v = zero_data
             \<and> unix_time (layer_get_data v) = 0
             \<and> wall_time (layer_get_data v)
                 = \<lparr>tm_sec = 0, tm_min = 0, tm_hour = 0, tm_mday = 0, tm_mon = 0,
                    tm_year = 0, tm_wday = 0, tm_yday = 0, tm_isdst = 0\<rparr>
             \<and> sky_thickness (layer_get_data v) = 0"
proof (cases "malloc_result host")
  case None
  then show ?thesis using assms by (simp add: create_malloc_fails)
next
  case (Some p')
  note m = this
  show ?thesis
  proof (cases "layer_result host")
    case None
    then show ?thesis
      using m assms
      by (simp add: bsky_analog_layer_create_def malloc_def layer_create_with_data_def)
  next
    case (Some q)
    then show ?thesis
      using m assms
      by (auto simp: create_succeeds live_handle_def new_layer_def layer_get_data_def
                     zero_data_def zero_tm_def)
  qed
qed

theorem create_initial_state_witness:
  "\<exists>q v. live_handle \<lparr>analog_layers = [1 \<mapsto> \<lparr>layer = Some 2, data = Some 2\<rparr>],
                       layers = [2 \<mapsto> new_layer (square_at_origin 180)]\<rparr> 1 q
        \<and> layers \<lparr>analog_layers = [1 \<mapsto> \<lparr>layer = Some 2, data = Some 2\<rparr>],
                   layers = [2 \<mapsto> new_layer (square_at_origin 180)]\<rparr> q = Some v
        \<and> layer_get_data v = zero_data
        \<and> unix_time (layer_get_data v) = 0
        \<and> wall_time (layer_get_data v)
            = \<lparr>tm_sec = 0, tm_min = 0, tm_hour = 0, tm_mday = 0, tm_mon = 0,
               tm_year = 0, tm_wday = 0, tm_yday = 0, tm_isdst = 0\<rparr>
        \<and> sky_thickness (layer_get_data v) = 0"
  by (rule create_initial_state [OF created_world [of "square_at_origin 180"]])

subsection \<open>Setting the time\<close>

lemma set_time_live:
  assumes "live_handle s p q" "layers s q = Some v"
  shows "bsky_analog_layer_set_time localtime p t s
         = Some (s\<lparr>layers := (layers s)(q \<mapsto>
              v\<lparr>layer_data := (layer_data v)\<lparr>unix_time := t, wall_time := localtime t\<rparr>,
                layer_dirty := True\<rparr>)\<rparr>)"
  using assms
  by (simp add: live_handle_def bsky_analog_layer_set_time_def write_data_def
                layer_mark_dirty_def Let_def)

text \<open>
  Claim C7. For every live handle and every timestamp \<open>t\<close>, \<open>bsky_analog_layer_set_time\<close>
  is defined and changes only the layer of the handle: it stores \<open>t\<close> in \<open>unix_time\<close>,
  the host's \<open>localtime\<close> of \<open>t\<close> in \<open>wall_time\<close>, and marks the layer dirty. A redraw
  of that layer afterwards reads this state: the angle it passes for the sun is computed
  from the hour and the minute of \<open>localtime t\<close>.
\<close>

theorem set_time_effect:
  assumes live: "live_handle s p q"
  shows "\<exists>v v'. layers s q = Some v
           \<and> v' = v\<lparr>layer_data := (layer_data v)\<lparr>unix_time := t, wall_time := localtime t\<rparr>,
                     layer_dirty := True\<rparr>
           \<and> bsky_analog_layer_set_time localtime p t s
               = Some (s\<lparr>layers := (layers s)(q \<mapsto> v')\<rparr>)
           \<and> unix_time (layer_get_data v') = t
           \<and> wall_time (layer_get_data v') = localtime t
           \<and> layer_dirty v'
           \<and> last (gpoint_from_polar_angles (bsky_analog_layer_update T g v'))
               = midnight_angle T + c_div (T * tm_hour (localtime t)) 24
                 + c_div (T * tm_min (localtime t)) (24 * 60)"
proof -
  obtain v where v: "layers s q = Some v"
    using live by (auto simp: live_handle_def)
  let ?v' = "v\<lparr>layer_data := (layer_data v)\<lparr>unix_time := t, wall_time := localtime t\<rparr>,
               layer_dirty := True\<rparr>"
  have "bsky_analog_layer_set_time localtime p t s = Some (s\<lparr>layers := (layers s)(q \<mapsto> ?v')\<rparr>)"
    using live v by (rule set_time_live)
  moreover have "last (gpoint_from_polar_angles (bsky_analog_layer_update T g ?v'))
               = midnight_angle T + c_div (T * tm_hour (localtime t)) 24
                 + c_div (T * tm_min (localtime t)) (24 * 60)"
    by (simp add: update_polar_angles sun_angle_def)
  ultimately show ?thesis
    using v by (simp add: layer_get_data_def)
qed

theorem set_time_effect_witness:
  "live_handle (snd (bsky_analog_layer_create host_grants (square_at_origin 180) empty_world)) 1 2
   \<and> (\<exists>v'. bsky_analog_layer_set_time localtime_1830 1 1000
               (snd (bsky_analog_layer_create host_grants (square_at_origin 180) empty_world))
             = Some \<lparr>analog_layers = [1 \<mapsto> \<lparr>layer = Some 2, data = Some 2\<rparr>],
                     layers = [2 \<mapsto> v']\<rparr>
           \<and> unix_time (layer_get_data v') = 1000
           \<and> tm_hour (wall_time (layer_get_data v')) = 18
           \<and> tm_min (wall_time (layer_get_data v')) = 30
           \<and> layer_dirty v')"
proof -
  let ?s = "snd (bsky_analog_layer_create host_grants (square_at_origin 180) empty_world)"
  have l: "live_handle ?s 1 2"
    by (simp add: created_world live_handle_def)
  show ?thesis
    using l set_time_effect [OF l, where t = 1000 and localtime = localtime_1830
                               and T = pebble_TRIG_MAX_ANGLE and g = polar_origin]
    by (auto simp: created_world localtime_1830_def zero_tm_def)
qed

subsection \<open>The stored sky thickness\<close>

lemma update_reads_times_only:
  assumes "unix_time d1 = unix_time d2" "wall_time d1 = wall_time d2"
  shows "bsky_analog_layer_update T g (v\<lparr>layer_data := d1\<rparr>)
         = bsky_analog_layer_update T g (v\<lparr>layer_data := d2\<rparr>)"
  using assms
  by (simp add: bsky_analog_layer_update_def layer_get_data_def layer_get_bounds_def
                sun_angle_def)

lemma write_data_layers:
  assumes "write_data dp f s = Some s'" "layers s r = Some u"
  shows "\<exists>u'. layers s' r = Some u'
            \<and> (layer_data u' = layer_data u \<or> layer_data u' = f (layer_data u))"
  using assms by (auto simp: write_data_def split: option.splits if_splits)

lemma mark_dirty_layers:
  assumes "layer_mark_dirty lp s = Some s'" "layers s r = Some u"
  shows "\<exists>u'. layers s' r = Some u' \<and> layer_data u' = layer_data u"
  using assms by (auto simp: layer_mark_dirty_def split: option.splits if_splits)

lemma set_time_keeps_sky_thickness:
  assumes st: "bsky_analog_layer_set_time localtime p t s = Some s'"
      and u: "layers s r = Some u"
  shows "\<exists>u'. layers s' r = Some u'
            \<and> sky_thickness (layer_data u') = sky_thickness (layer_data u)"
proof -
  obtain a :: BSKY_AnalogLayer and s1 s2 where
    w1: "write_data (data a) (\<lambda>d. d\<lparr>unix_time := t\<rparr>) s = Some s1" and
    w2: "write_data (data a) (\<lambda>d. d\<lparr>wall_time := localtime t\<rparr>) s1 = Some s2" and
    md: "layer_mark_dirty (layer a) s2 = Some s'"
    using st
    by (auto simp: bsky_analog_layer_set_time_def Let_def split: option.splits)
  obtain u1 where u1: "layers s1 r = Some u1"
      "sky_thickness (layer_data u1) = sky_thickness (layer_data u)"
    using write_data_layers [OF w1 u] by auto
  obtain u2 where u2: "layers s2 r = Some u2"
      "sky_thickness (layer_data u2) = sky_thickness (layer_data u1)"
    using write_data_layers [OF w2 u1(1)] by auto
  obtain u3 where u3: "layers s' r = Some u3" "layer_data u3 = layer_data u2"
    using mark_dirty_layers [OF md u2(1)] by auto
  show ?thesis
    using u1 u2 u3 by simp
qed

lemma create_keeps_layers:
  assumes "layers s r = Some u" "layer_result host \<noteq> Some r"
  shows "layers (snd (bsky_analog_layer_create host frame s)) r = Some u"
  using assms
  by (auto simp: bsky_analog_layer_create_def malloc_def layer_create_with_data_def free_def
                 store_layer_def store_data_def layer_set_update_proc_def
           split: option.splits)

lemma create_keeps_new_data:
  assumes "fst (bsky_analog_layer_create host frame s) \<noteq> None" "layer_result host = Some q"
  shows "\<exists>u u0. layers (snd (bsky_analog_layer_create host frame s)) q = Some u
            \<and> layers (snd (layer_create_with_data host frame s)) q = Some u0
            \<and> layer_data u = layer_data u0"
  using assms
  by (auto simp: bsky_analog_layer_create_def malloc_def layer_create_with_data_def free_def
                 store_layer_def store_data_def layer_set_update_proc_def
           split: option.splits)

text \<open>
  Claim C9. The redraw procedure yields the same sequence of calls for any two states of
  a layer that agree on the timestamp and the wall time, whatever their \<open>sky_thickness\<close>
  fields. No operation writes the field: \<open>bsky_analog_layer_set_time\<close> leaves it as it
  is in every layer; \<open>bsky_analog_layer_create\<close> leaves every layer that existed as it
  is (the host giving a new address to the new layer), and the state of the new layer
  is the one that \<open>layer_create_with_data\<close> gave it; \<open>bsky_analog_layer_get_layer\<close> and
  the redraw procedure return no memory at all.
\<close>

theorem sky_thickness_field_unused:
  "(unix_time d1 = unix_time d2 \<and> wall_time d1 = wall_time d2
      \<longrightarrow> bsky_analog_layer_update T g (v\<lparr>layer_data := d1\<rparr>)
          = bsky_analog_layer_update T g (v\<lparr>layer_data := d2\<rparr>))
   \<and> (\<forall>s' r u. bsky_analog_layer_set_time localtime p t s = Some s' \<and> layers s r = Some u
      \<longrightarrow> (\<exists>u'. layers s' r = Some u'
              \<and> sky_thickness (layer_data u') = sky_thickness (layer_data u)))
   \<and> (\<forall>r u. layers s r = Some u \<and> layer_result host \<noteq> Some r
      \<longrightarrow> layers (snd (bsky_analog_layer_create host frame s)) r = Some u)
   \<and> (\<forall>q. fst (bsky_analog_layer_create host frame s) \<noteq> None \<and> layer_result host = Some q
      \<longrightarrow> (\<exists>u u0. layers (snd (bsky_analog_layer_create host frame s)) q = Some u
              \<and> layers (snd (layer_create_with_data host frame s)) q = Some u0
              \<and> layer_data u = layer_data u0))"
  using update_reads_times_only [of d1 d2 T g v]
        set_time_keeps_sky_thickness [of localtime p t s]
        create_keeps_layers [of s _ _ host frame]
        create_keeps_new_data [of host frame s]
  by blast


theorem sky_thickness_field_unused_witness:
  "bsky_analog_layer_update pebble_TRIG_MAX_ANGLE polar_origin
     ((new_layer (square_at_origin 180))\<lparr>layer_data := data_at 18 30\<rparr>)
   = bsky_analog_layer_update pebble_TRIG_MAX_ANGLE polar_origin
       ((new_layer (square_at_origin 180))
          \<lparr>layer_data := (data_at 18 30)\<lparr>sky_thickness := 99\<rparr>\<rparr>)
   \<and> (\<exists>s' u'. bsky_analog_layer_set_time localtime_1830 1 1000
                  \<lparr>analog_layers = [1 \<mapsto> \<lparr>layer = Some 2, data = Some 2\<rparr>],
                   layers = [2 \<mapsto> new_layer (square_at_origin 180)]\<rparr> = Some s'
              \<and> layers s' 2 = Some u' \<and> sky_thickness (layer_data u') = 0)
   \<and> layers (snd (bsky_analog_layer_create host_refuses_layer (square_at_origin 180)
                 \<lparr>analog_layers = [1 \<mapsto> \<lparr>layer = Some 2, data = Some 2\<rparr>],
                  layers = [2 \<mapsto> new_layer (square_at_origin 180)]\<rparr>)) 2
       = Some (new_layer (square_at_origin 180))
   \<and> (\<exists>u. layers (snd (bsky_analog_layer_create host_grants (square_at_origin 180)
                 empty_world)) 2 = Some u
         \<and> sky_thickness (layer_data u) = 0)"
proof -
  let ?w = "\<lparr>analog_layers = [1 \<mapsto> \<lparr>layer = Some 2, data = Some 2\<rparr>],
             layers = [2 \<mapsto> new_layer (square_at_origin 180)]\<rparr>"
  have l: "live_handle ?w 1 2" "layers ?w 2 = Some (new_layer (square_at_origin 180))"
    by (simp_all add: live_handle_def)
  have st: "\<exists>s'. bsky_analog_layer_set_time localtime_1830 1 1000 ?w = Some s'"
    using set_time_live [OF l, of localtime_1830 1000] by simp
  have d: "sky_thickness (layer_data (new_layer (square_at_origin 180))) = 0"
    by (simp add: new_layer_def zero_data_def)
  have z: "layers (snd (layer_create_with_data host_grants (square_at_origin 180) empty_world)) 2
           = Some ((new_layer (square_at_origin 180))\<lparr>layer_update_proc := None\<rparr>)"
    by (simp add: layer_create_with_data_def host_grants_def empty_world_def new_layer_def)
  have a: "unix_time (data_at 18 30) = unix_time ((data_at 18 30)\<lparr>sky_thickness := 99\<rparr>)"
          "wall_time (data_at 18 30) = wall_time ((data_at 18 30)\<lparr>sky_thickness := 99\<rparr>)"
    by simp_all
  have r: "layer_result host_refuses_layer \<noteq> Some 2" "layer_result host_grants = Some 2"
    by (simp_all add: host_refuses_layer_def host_grants_def)
  have c: "fst (bsky_analog_layer_create host_grants (square_at_origin 180) empty_world) \<noteq> None"
    by (simp add: created_world)
  note i1 = sky_thickness_field_unused
            [where ?d1.0 = "data_at 18 30"
               and ?d2.0 = "(data_at 18 30)\<lparr>sky_thickness := 99\<rparr>"
               and T = pebble_TRIG_MAX_ANGLE and g = polar_origin
               and v = "new_layer (square_at_origin 180)"
               and localtime = localtime_1830 and p = 1 and t = 1000 and s = ?w
               and host = host_refuses_layer and frame = "square_at_origin 180"]
  note i2 = sky_thickness_field_unused
            [where ?d1.0 = "data_at 18 30" and ?d2.0 = "data_at 18 30"
               and T = pebble_TRIG_MAX_ANGLE and g = polar_origin
               and v = "new_layer (square_at_origin 180)"
               and localtime = localtime_1830 and p = 1 and t = 1000 and s = empty_world
               and host = host_grants and frame = "square_at_origin 180"]
  have p1: "bsky_analog_layer_update pebble_TRIG_MAX_ANGLE polar_origin
     ((new_layer (square_at_origin 180))\<lparr>layer_data := data_at 18 30\<rparr>)
   = bsky_analog_layer_update pebble_TRIG_MAX_ANGLE polar_origin
       ((new_layer (square_at_origin 180))
          \<lparr>layer_data := (data_at 18 30)\<lparr>sky_thickness := 99\<rparr>\<rparr>)"
    using i1 [THEN conjunct1] a by blast
  obtain s' where s': "bsky_analog_layer_set_time localtime_1830 1 1000 ?w = Some s'"
    using st by blast
  have "\<exists>u'. layers s' 2 = Some u'
          \<and> sky_thickness (layer_data u')
              = sky_thickness (layer_data (new_layer (square_at_origin 180)))"
    using i1 [THEN conjunct2, THEN conjunct1] s' l(2) by blast
  then have p2: "\<exists>s' u'. bsky_analog_layer_set_time localtime_1830 1 1000 ?w = Some s'
              \<and> layers s' 2 = Some u' \<and> sky_thickness (layer_data u') = 0"
    using s' d by auto
  have p3: "layers (snd (bsky_analog_layer_create host_refuses_layer (square_at_origin 180) ?w)) 2
       = Some (new_layer (square_at_origin 180))"
    using i1 [THEN conjunct2, THEN conjunct2, THEN conjunct1] l(2) r(1) by blast
  have "\<exists>u u0. layers (snd (bsky_analog_layer_create host_grants (square_at_origin 180)
                   empty_world)) 2 = Some u
          \<and> layers (snd (layer_create_with_data host_grants (square_at_origin 180)
                   empty_world)) 2 = Some u0
          \<and> layer_data u = layer_data u0"
    using i2 [THEN conjunct2, THEN conjunct2, THEN conjunct2] c r(2) by blast
  then have p4: "\<exists>u. layers (snd (bsky_analog_layer_create host_grants (square_at_origin 180)
                 empty_world)) 2 = Some u
         \<and> sky_thickness (layer_data u) = 0"
    using z d by auto
  show ?thesis
    using p1 p2 p3 p4 by (intro conjI)
qed

end
